theory Spec2Isabelle
  imports Complex_Main "HOL-Library.Char_ord" "HOL-Library.List_Lexorder"
    "HOL-Library.Product_Lexorder"
begin

section \<open>JavaScript values used by the video controller\<close>

text \<open>
  A JavaScript number is NaN, an infinity or a finite IEEE 754 double. A finite double is
  kept as the rational it denotes, and every arithmetic result is rounded to the nearest
  double (ties to even), overflowing to an infinity, as the runtime does. The sign of
  zero is not kept: \<open>-0\<close> and \<open>0\<close> are both \<open>Fin 0\<close>, which no comparison of the source
  distinguishes.
\<close>

datatype jsnum = NaN | PosInf | NegInf | Fin rat

fun Number_isFinite :: "jsnum \<Rightarrow> bool" where
  "Number_isFinite (Fin r) = True"
| "Number_isFinite NaN = False"
| "Number_isFinite PosInf = False"
| "Number_isFinite NegInf = False"

text \<open>The relational operator \<open><\<close>: every comparison with NaN is false.\<close>

fun js_lt :: "jsnum \<Rightarrow> jsnum \<Rightarrow> bool" where
  "js_lt (Fin a) (Fin b) = (a < b)"
| "js_lt (Fin a) PosInf = True"
| "js_lt NegInf (Fin b) = True"
| "js_lt NegInf PosInf = True"
| "js_lt x y = False"

text \<open>
  Rounding to binary64. \<open>binary_exponent a\<close> is the exponent \<open>e\<close> of a positive \<open>a\<close>:
  \<open>2 ^ e \<le> a < 2 ^ (e + 1)\<close>, and \<open>-1022\<close> for the subnormal range. The spacing of the
  doubles around \<open>a\<close> is \<open>2 ^ (e - 52)\<close>; \<open>a\<close> is rounded to the nearest multiple, to the
  even one on a tie, and a result of \<open>2 ^ 1024\<close> or more (an exponent of 1024 or more, or
  the multiple \<open>2 ^ 53\<close> at exponent 1023) is an infinity.
\<close>

function bit_length :: "int \<Rightarrow> nat" where
  "bit_length n = (if n \<le> 0 then 0 else Suc (bit_length (n div 2)))"
  by pat_completeness auto
termination
  by (relation "measure nat") auto

declare bit_length.simps [simp del]

fun scale_up :: "nat \<Rightarrow> nat \<Rightarrow> rat \<Rightarrow> nat" where
  "scale_up 0 k a = k"
| "scale_up (Suc fuel) k a = (if 1 \<le> a then k else scale_up fuel (Suc k) (2 * a))"

definition binary_exponent :: "rat \<Rightarrow> int" where
  "binary_exponent a =
     (if 1 \<le> a then int (bit_length \<lfloor>a\<rfloor>) - 1 else - int (scale_up 1022 0 a))"

definition pow2 :: "int \<Rightarrow> rat" where
  "pow2 k = (if 0 \<le> k then 2 ^ nat k else 1 / 2 ^ nat (- k))"

definition round_half_even :: "rat \<Rightarrow> int" where
  "round_half_even q =
     (let f = \<lfloor>q\<rfloor>; r = q - of_int f
      in if r < 1 / 2 then f else if 1 / 2 < r then f + 1 else if even f then f else f + 1)"

definition round_double :: "rat \<Rightarrow> jsnum" where
  "round_double r =
     (if r = 0 then Fin 0
      else
        (let a = \<bar>r\<bar>; e = binary_exponent a
         in if 1024 \<le> e then (if 0 < r then PosInf else NegInf)
            else
              (let ulp = pow2 (e - 52); n = round_half_even (a / ulp)
               in if e = 1023 \<and> 2 ^ 53 \<le> n then (if 0 < r then PosInf else NegInf)
                  else Fin (if 0 < r then of_int n * ulp else - (of_int n * ulp)))))"

fun js_sub :: "jsnum \<Rightarrow> jsnum \<Rightarrow> jsnum" where
  "js_sub (Fin a) (Fin b) = round_double (a - b)"
| "js_sub (Fin a) PosInf = NegInf"
| "js_sub (Fin a) NegInf = PosInf"
| "js_sub PosInf (Fin b) = PosInf"
| "js_sub PosInf NegInf = PosInf"
| "js_sub NegInf (Fin b) = NegInf"
| "js_sub NegInf PosInf = NegInf"
| "js_sub x y = NaN"

fun js_mul :: "jsnum \<Rightarrow> jsnum \<Rightarrow> jsnum" where
  "js_mul (Fin a) (Fin b) = round_double (a * b)"
| "js_mul NaN y = NaN"
| "js_mul x NaN = NaN"
| "js_mul (Fin a) PosInf = (if a = 0 then NaN else if 0 < a then PosInf else NegInf)"
| "js_mul (Fin a) NegInf = (if a = 0 then NaN else if 0 < a then NegInf else PosInf)"
| "js_mul PosInf (Fin b) = (if b = 0 then NaN else if 0 < b then PosInf else NegInf)"
| "js_mul NegInf (Fin b) = (if b = 0 then NaN else if 0 < b then NegInf else PosInf)"
| "js_mul PosInf PosInf = PosInf"
| "js_mul PosInf NegInf = NegInf"
| "js_mul NegInf PosInf = NegInf"
| "js_mul NegInf NegInf = PosInf"

text \<open>
  \<open>String.prototype.trim\<close>. A \<open>char\<close> is a code unit below 256; of the characters
  JavaScript treats as white space or line terminators these are tab, line feed, vertical
  tab, form feed, carriage return, space and the no-break space U+00A0. The others
  (U+FEFF, U+2028, U+2029 and the Unicode space separators) are not values of the type.
\<close>

definition isWhiteSpace :: "char \<Rightarrow> bool" where
  "isWhiteSpace c =
     (c \<in> set [CHR 0x09, CHR 0x0A, CHR 0x0B, CHR 0x0C, CHR 0x0D, CHR 0x20, CHR 0xA0])"

definition trim :: "string \<Rightarrow> string" where
  "trim s = rev (dropWhile isWhiteSpace (rev (dropWhile isWhiteSpace s)))"

text \<open>
  A request field is absent (\<open>undefined\<close>) or a string. \<open>falsy\<close> is JavaScript's
  \<open>!x\<close> on such a field: \<open>undefined\<close> and the empty string are falsy.
\<close>

definition falsy :: "string option \<Rightarrow> bool" where
  "falsy x = (case x of None \<Rightarrow> True | Some s \<Rightarrow> s = [])"

text \<open>Errors: the controller's own \<open>ApiError\<close>, the runtime's \<open>TypeError\<close>, and whatever
  a collaborator (the database driver, the regular expression constructor) throws.\<close>

datatype error = ApiError nat string | TypeError string | Thrown string

section \<open>Data model\<close>

text \<open>
  Modelled from the spec: \<open>models/video.model.js\<close> and \<open>models/user.model.js\<close> are not
  among the sources. Section 3 of the specification lists the fields of a Video
  (identifier, videoFile, thumbnail, title, description, duration, views, isPublished,
  owner) and of a User; \<open>createdAt\<close> is the field the listing projects. The owner and the
  duration are optional because the create handler passes \<open>req.user?._id\<close> and
  \<open>videoFile.duration\<close>, either of which can be \<open>undefined\<close>.
\<close>

record video =
  video_id :: string
  videoFile :: string
  thumbnail :: string
  title :: string
  description :: string
  duration :: "rat option"
  views :: rat
  isPublished :: bool
  owner :: "string option"
  createdAt :: int

record user =
  user_id :: string
  fullName :: string
  username :: string
  avatar :: string

record db =
  videos :: "video list"
  users :: "user list"

text \<open>Documents as the aggregation engine sees them: field lists over BSON values.\<close>

datatype bval =
    BNum rat
  | BStr string
  | BOid string
  | BBool bool
  | BDate int
  | BDoc "(string \<times> bval) list"
  | BArr "bval list"

type_synonym doc = "(string \<times> bval) list"

definition video_doc :: "video \<Rightarrow> doc" where
  "video_doc v =
     [(''_id'', BOid (video_id v)),
      (''videoFile'', BStr (videoFile v)),
      (''thumbnail'', BStr (thumbnail v)),
      (''title'', BStr (title v)),
      (''description'', BStr (description v))]
     @ (case duration v of None \<Rightarrow> [] | Some d \<Rightarrow> [(''duration'', BNum d)])
     @ [(''views'', BNum (views v)),
        (''isPublished'', BBool (isPublished v))]
     @ (case owner v of None \<Rightarrow> [] | Some u \<Rightarrow> [(''owner'', BOid u)])
     @ [(''createdAt'', BDate (createdAt v))]"

definition user_doc :: "user \<Rightarrow> doc" where
  "user_doc u =
     [(''_id'', BOid (user_id u)),
      (''fullName'', BStr (fullName u)),
      (''username'', BStr (username u)),
      (''avatar'', BStr (avatar u))]"

text \<open>Field access: the first binding of a name; a dotted path descends into embedded
  documents.\<close>

fun get_path :: "string list \<Rightarrow> bval \<Rightarrow> bval option"
  and get_field :: "string \<Rightarrow> string list \<Rightarrow> doc \<Rightarrow> bval option" where
  "get_path [] v = Some v"
| "get_path (k # ks) (BDoc d) = get_field k ks d"
| "get_path (k # ks) v = None"
| "get_field k ks [] = None"
| "get_field k ks ((n, v) # d) = (if n = k then get_path ks v else get_field k ks d)"

definition field :: "string \<Rightarrow> doc \<Rightarrow> bval option" where
  "field k d = get_field k [] d"

fun split_path :: "string \<Rightarrow> string list" where
  "split_path [] = [[]]"
| "split_path (c # cs) =
     (if c = CHR ''.'' then [] # split_path cs
      else (case split_path cs of [] \<Rightarrow> [[c]] | p # ps \<Rightarrow> (c # p) # ps))"

definition path_value :: "string \<Rightarrow> doc \<Rightarrow> bval option" where
  "path_value p d = get_path (split_path p) (BDoc d)"

definition remove_field :: "string \<Rightarrow> doc \<Rightarrow> doc" where
  "remove_field k d = filter (\<lambda>kv. fst kv \<noteq> k) d"

definition set_field :: "string \<Rightarrow> bval \<Rightarrow> doc \<Rightarrow> doc" where
  "set_field k v d = remove_field k d @ [(k, v)]"

section \<open>Collaborators\<close>

text \<open>
  The handlers call into the JavaScript runtime, mongoose and the media store. None of
  them is part of the repository, so each is a field of the environment:
  \<^item> \<open>Number\<close>: the conversion of a query-string value to a number;
  \<^item> \<open>isValidObjectId\<close>: mongoose's identifier check;
  \<^item> \<open>ObjectId\<close>: \<open>mongoose.Types.ObjectId(x)\<close>, which returns an identifier or throws;
  \<^item> \<open>RegExp_throws\<close>: what \<open>new RegExp(source, "i")\<close> throws, if anything, and
    \<open>regex_test\<close>: whether the case-insensitive pattern matches a string;
  \<^item> \<open>uploadOnCloudinary\<close>: the uploaded asset, or \<open>null\<close> when the upload fails;
  \<^item> \<open>new_document\<close>: the document a \<open>Video.create\<close> starts from (generated identifier,
    schema defaults, timestamps) before the given fields are set.
\<close>

record asset =
  url :: string
  asset_duration :: "rat option"

record env =
  Number :: "string \<Rightarrow> jsnum"
  isValidObjectId :: "string option \<Rightarrow> bool"
  ObjectId :: "string option \<Rightarrow> error + string"
  RegExp_throws :: "string \<Rightarrow> error option"
  regex_test :: "string \<Rightarrow> string \<Rightarrow> bool"
  uploadOnCloudinary :: "string \<Rightarrow> asset option"
  new_document :: "db \<Rightarrow> video"

text \<open>
  Modelled from the spec: \<open>models/video.model.js\<close> is not among the sources. Section 6
  of the specification lists what the Persistence Gateway exposes: create, findById,
  findByIdAndUpdate and aggregate. Property names are case sensitive; reading any other
  property of the model yields \<open>undefined\<close>, and calling it throws a TypeError.
\<close>

definition Video_exposes :: "string list" where
  "Video_exposes = [''create'', ''findById'', ''findByIdAndUpdate'', ''aggregate'']"

definition not_a_function :: "string \<Rightarrow> error" where
  "not_a_function m = TypeError (''Video.'' @ m @ '' is not a function'')"

definition findById :: "db \<Rightarrow> string option \<Rightarrow> video option" where
  "findById d i = (case i of None \<Rightarrow> None | Some k \<Rightarrow> find (\<lambda>v. video_id v = k) (videos d))"

fun update_first :: "string \<Rightarrow> (video \<Rightarrow> video) \<Rightarrow> video list \<Rightarrow> video list" where
  "update_first k f [] = []"
| "update_first k f (v # vs) = (if video_id v = k then f v # vs else v # update_first k f vs)"

text \<open>\<open>findByIdAndUpdate\<close> writes the first record with the identifier, if there is one.\<close>

definition findByIdAndUpdate :: "db \<Rightarrow> string option \<Rightarrow> (video \<Rightarrow> video) \<Rightarrow> db" where
  "findByIdAndUpdate d i f =
     (case i of None \<Rightarrow> d | Some k \<Rightarrow> d\<lparr>videos := update_first k f (videos d)\<rparr>)"

section \<open>The aggregation pipeline\<close>

text \<open>
  The stages the listing issues. \<open>Match u p re\<close> is
  \<open>{$match: {owner: u, isPublished: p, title: {$regex: re (flag i)}}}\<close>;
  \<open>AddFields_first n src\<close> is \<open>{$addFields: {n: {$first: "$src"}}}\<close>;
  \<open>Project incl computed\<close> keeps the fields \<open>incl\<close> and adds each \<open>(n, p)\<close> of \<open>computed\<close> as
  field \<open>n\<close> with the value at path \<open>p\<close>.
\<close>

datatype stage =
    Match string bool string
  | Lookup string string string string
  | AddFields_first string string
  | Sort string int
  | Skip jsnum
  | Limit jsnum
  | Project "string list" "(string \<times> string) list"

text \<open>
  The order of BSON values in a sort: missing fields first, then numbers, strings,
  embedded documents, arrays, identifiers, booleans, dates. Embedded documents and
  arrays are ranked by their type only.
\<close>

fun bson_key :: "bval option \<Rightarrow> nat \<times> rat \<times> string" where
  "bson_key None = (0, 0, [])"
| "bson_key (Some (BNum r)) = (1, r, [])"
| "bson_key (Some (BStr s)) = (2, 0, s)"
| "bson_key (Some (BDoc d)) = (3, 0, [])"
| "bson_key (Some (BArr a)) = (4, 0, [])"
| "bson_key (Some (BOid s)) = (5, 0, s)"
| "bson_key (Some (BBool b)) = (6, (if b then 1 else 0), [])"
| "bson_key (Some (BDate t)) = (7, of_int t, [])"

definition sort_value :: "string \<Rightarrow> doc \<Rightarrow> nat \<times> rat \<times> string" where
  "sort_value k d = bson_key (path_value k d)"

definition matches :: "env \<Rightarrow> string \<Rightarrow> bool \<Rightarrow> string \<Rightarrow> doc \<Rightarrow> bool" where
  "matches e u p re d =
     (field ''owner'' d = Some (BOid u) \<and> field ''isPublished'' d = Some (BBool p) \<and>
      (case field ''title'' d of Some (BStr t) \<Rightarrow> regex_test e re t | _ \<Rightarrow> False))"

definition collection :: "db \<Rightarrow> string \<Rightarrow> doc list" where
  "collection d name =
     (if name = ''users'' then map user_doc (users d)
      else if name = ''videos'' then map video_doc (videos d)
      else [])"

definition lookup_doc :: "doc list \<Rightarrow> string \<Rightarrow> string \<Rightarrow> string \<Rightarrow> doc \<Rightarrow> doc" where
  "lookup_doc coll local foreign as d =
     set_field as (BArr (map BDoc (filter (\<lambda>f. field foreign f = field local d) coll))) d"

definition first_defined :: "string \<Rightarrow> doc \<Rightarrow> bool" where
  "first_defined src d = (case field src d of None \<Rightarrow> True | Some (BArr a) \<Rightarrow> True | _ \<Rightarrow> False)"

definition add_first :: "string \<Rightarrow> string \<Rightarrow> doc \<Rightarrow> doc" where
  "add_first n src d =
     (case field src d of
        Some (BArr (x # xs)) \<Rightarrow> set_field n x d
      | _ \<Rightarrow> remove_field n d)"

definition project :: "string list \<Rightarrow> (string \<times> string) list \<Rightarrow> doc \<Rightarrow> doc" where
  "project incl computed d =
     List.map_filter (\<lambda>k. map_option (Pair k) (field k d)) incl
     @ List.map_filter (\<lambda>np. map_option (Pair (fst np)) (path_value (snd np) d)) computed"

definition integral :: "rat \<Rightarrow> bool" where
  "integral r = (of_int \<lfloor>r\<rfloor> = r)"

fun run_stage :: "env \<Rightarrow> db \<Rightarrow> stage \<Rightarrow> doc list \<Rightarrow> error + doc list" where
  "run_stage e d (Match u p re) ds = Inr (filter (matches e u p re) ds)"
| "run_stage e d (Lookup from local foreign as) ds =
     Inr (map (lookup_doc (collection d from) local foreign as) ds)"
| "run_stage e d (AddFields_first n src) ds =
     (if list_all (first_defined src) ds then Inr (map (add_first n src) ds)
      else Inl (Thrown ''$first: the argument must be an array''))"
| "run_stage e d (Sort k dir) ds =
     (if dir = 1 then Inr (sort_key (sort_value k) ds)
      else if dir = - 1 then Inr (rev (sort_key (sort_value k) ds))
      else Inl (Thrown ''$sort: the order must be 1 or -1''))"
| "run_stage e d (Skip n) ds =
     (case n of
        Fin r \<Rightarrow> if integral r \<and> 0 \<le> r then Inr (drop (nat \<lfloor>r\<rfloor>) ds)
                 else Inl (Thrown ''$skip: expected a non-negative integer'')
      | _ \<Rightarrow> Inl (Thrown ''$skip: expected a non-negative integer''))"
| "run_stage e d (Limit n) ds =
     (case n of
        Fin r \<Rightarrow> if integral r \<and> 1 \<le> r then Inr (take (nat \<lfloor>r\<rfloor>) ds)
                 else Inl (Thrown ''$limit: expected a positive integer'')
      | _ \<Rightarrow> Inl (Thrown ''$limit: expected a positive integer''))"
| "run_stage e d (Project incl computed) ds = Inr (map (project incl computed) ds)"

fun run_pipeline :: "env \<Rightarrow> db \<Rightarrow> stage list \<Rightarrow> doc list \<Rightarrow> error + doc list" where
  "run_pipeline e d [] ds = Inr ds"
| "run_pipeline e d (s # ss) ds =
     (case run_stage e d s ds of Inl x \<Rightarrow> Inl x | Inr ds' \<Rightarrow> run_pipeline e d ss ds')"

definition aggregate :: "env \<Rightarrow> db \<Rightarrow> stage list \<Rightarrow> error + doc list" where
  "aggregate e d pl = run_pipeline e d pl (map video_doc (videos d))"

section \<open>Requests, responses and effects\<close>

record query_params =
  page :: "string option"
  limit :: "string option"
  query :: "string option"
  sortBy :: "string option"
  sortType :: "string option"
  userId :: "string option"

record body =
  body_title :: "string option"
  body_description :: "string option"

record multer_file =
  path :: "string option"

record uploaded_files =
  files_videoFile :: "multer_file list option"
  files_thumbnail :: "multer_file list option"

text \<open>\<open>rq_user\<close> is \<open>req.user?._id\<close>: the caller's identifier, when the request carries one.\<close>

record request =
  rq_query :: query_params
  rq_body :: body
  rq_videoId :: "string option"
  rq_files :: "uploaded_files option"
  rq_user :: "string option"

datatype payload = Rows "doc list" | Doc "video option"

datatype api_response = ApiResponse nat payload string

text \<open>A response is the HTTP status set by \<open>res.status\<close> and the envelope sent.\<close>

type_synonym response = "nat \<times> api_response"

datatype event =
    Upload string
  | Delete string
  | Create video
  | FindById "string option"
  | FindByIdAndUpdate "string option" string string string
  | Aggregate "stage list"

text \<open>What a handler does: its result, the store it leaves and the calls it made to the
  media store and the database, in order.\<close>

type_synonym outcome = "(error + response) \<times> db \<times> event list"

text \<open>\<open>files?.f[0]?.path\<close>: \<open>undefined\<close> when \<open>files\<close> is absent, a TypeError when the field
  \<open>f\<close> is absent, \<open>undefined\<close> when the array is empty.\<close>

definition local_path ::
  "(uploaded_files \<Rightarrow> multer_file list option) \<Rightarrow> uploaded_files option \<Rightarrow> error + string option" where
  "local_path f files =
     (case files of
        None \<Rightarrow> Inr None
      | Some fs \<Rightarrow>
          (case f fs of
             None \<Rightarrow> Inl (TypeError ''Cannot read properties of undefined (reading 0)'')
           | Some [] \<Rightarrow> Inr None
           | Some (x # xs) \<Rightarrow> Inr (path x)))"

text \<open>\<open>!x || x.trim() == ""\<close> fails; otherwise the field's string.\<close>

definition required_text :: "string option \<Rightarrow> string option" where
  "required_text x =
     (case x of None \<Rightarrow> None | Some s \<Rightarrow> if s = [] \<or> trim s = [] then None else Some s)"

text \<open>\<open>!x\<close> fails; otherwise the field's string.\<close>

definition required :: "string option \<Rightarrow> string option" where
  "required x = (if falsy x then None else x)"

section \<open>The handlers of \<open>video.controller.js\<close>\<close>

text \<open>
  \<open>getAllVideos\<close>. \<open>page\<close> and \<open>limit\<close> default to 1 and 10 when absent; the computed key
  \<open>[sortBy]\<close> is the string \<open>undefined\<close> when \<open>sortBy\<close> is absent. The argument of
  \<open>Video.aggregate\<close> is evaluated before the call, so a throwing \<open>ObjectId\<close> or \<open>RegExp\<close>
  ends the handler before any query is issued.
\<close>

definition pageNum :: "env \<Rightarrow> query_params \<Rightarrow> jsnum" where
  "pageNum e q = (case page q of None \<Rightarrow> Fin 1 | Some s \<Rightarrow> Number e s)"

definition limitNum :: "env \<Rightarrow> query_params \<Rightarrow> jsnum" where
  "limitNum e q = (case limit q of None \<Rightarrow> Fin 10 | Some s \<Rightarrow> Number e s)"

definition startIndex :: "env \<Rightarrow> query_params \<Rightarrow> jsnum" where
  "startIndex e q = js_mul (js_sub (pageNum e q) (Fin 1)) (limitNum e q)"

definition sort_field :: "query_params \<Rightarrow> string" where
  "sort_field q = (case sortBy q of None \<Rightarrow> ''undefined'' | Some s \<Rightarrow> s)"

definition sort_order :: "query_params \<Rightarrow> int" where
  "sort_order q = (if sortType q = Some ''desc'' then - 1 else 1)"

definition listing_pipeline :: "string \<Rightarrow> string \<Rightarrow> env \<Rightarrow> query_params \<Rightarrow> stage list" where
  "listing_pipeline u re e q =
     [Match u True re,
      Lookup ''users'' ''owner'' ''_id'' ''ownerInfo'',
      AddFields_first ''ownerInfo'' ''ownerInfo'',
      Sort (sort_field q) (sort_order q),
      Skip (startIndex e q),
      Limit (limitNum e q),
      Project [''_id'', ''title'', ''videoFile'', ''thumbnail'', ''views'', ''duration'',
               ''createdAt'', ''owner'']
              [(''ownerName'', ''ownerInfo.fullName''), (''ownerAvatar'', ''ownerInfo.avatar'')]]"

definition getAllVideos :: "env \<Rightarrow> db \<Rightarrow> request \<Rightarrow> outcome" where
  "getAllVideos e d req =
     (let q = rq_query req in
      if \<not> Number_isFinite (pageNum e q) \<or> js_lt (pageNum e q) (Fin 1)
      then (Inl (ApiError 400 ''Page should be a positive integer''), d, [])
      else if \<not> Number_isFinite (limitNum e q) \<or> js_lt (limitNum e q) (Fin 1)
      then (Inl (ApiError 400 ''Video limit should be a positive integer''), d, [])
      else
        (case required_text (query q) of
           None \<Rightarrow> (Inl (ApiError 400 ''Query is required''), d, [])
         | Some qs \<Rightarrow>
             if \<not> falsy (userId q) \<and> \<not> isValidObjectId e (userId q)
             then (Inl (ApiError 400 ''Please provide a valid user id''), d, [])
             else
               (case ObjectId e (userId q) of
                  Inl x \<Rightarrow> (Inl x, d, [])
                | Inr u \<Rightarrow>
                    (case RegExp_throws e (trim qs) of
                       Some x \<Rightarrow> (Inl x, d, [])
                     | None \<Rightarrow>
                         (let pl = listing_pipeline u (trim qs) e q in
                          if ''aggregate'' \<notin> set Video_exposes
                          then (Inl (not_a_function ''aggregate''), d, [])
                          else
                            (case aggregate e d pl of
                               Inl x \<Rightarrow> (Inl x, d, [Aggregate pl])
                             | Inr allVideos \<Rightarrow>
                                 (Inr (200, ApiResponse 200 (Rows allVideos)
                                         ''All videos fetched successfully''),
                                  d, [Aggregate pl])))))))"

text \<open>
  \<open>publishAVideo\<close>. The two local paths are read first, then the body is validated, then
  the files are uploaded, video first. The record is created and re-read with
  \<open>Video.findbyId\<close>, the name the source writes.
\<close>

definition publishAVideo :: "env \<Rightarrow> db \<Rightarrow> request \<Rightarrow> outcome" where
  "publishAVideo e d req =
     (case local_path files_videoFile (rq_files req) of
        Inl x \<Rightarrow> (Inl x, d, [])
      | Inr videoFileLocalPath \<Rightarrow>
     (case local_path files_thumbnail (rq_files req) of
        Inl x \<Rightarrow> (Inl x, d, [])
      | Inr thumbnailLocalPath \<Rightarrow>
     (case (required_text (body_title (rq_body req)),
            required_text (body_description (rq_body req))) of
        (Some t, Some ds) \<Rightarrow>
          (case (required videoFileLocalPath, required thumbnailLocalPath) of
             (Some vp, Some tp) \<Rightarrow>
               (case (uploadOnCloudinary e vp, uploadOnCloudinary e tp) of
                  (Some vf, Some th) \<Rightarrow>
                    if ''create'' \<notin> set Video_exposes
                    then (Inl (not_a_function ''create''), d, [Upload vp, Upload tp])
                    else
                      (let videoToUpload = (new_document e d)
                             \<lparr>videoFile := url vf, thumbnail := url th, title := t,
                              description := ds, duration := asset_duration vf,
                              owner := rq_user req\<rparr>;
                           d' = d\<lparr>videos := videos d @ [videoToUpload]\<rparr>
                       in
                       if ''findbyId'' \<notin> set Video_exposes
                       then (Inl (not_a_function ''findbyId''), d',
                             [Upload vp, Upload tp, Create videoToUpload])
                       else
                         (case findById d' (Some (video_id videoToUpload)) of
                            None \<Rightarrow>
                              (Inl (ApiError 500 ''something went wrong while uploading the video''),
                               d',
                               [Upload vp, Upload tp, Create videoToUpload,
                                FindById (Some (video_id videoToUpload))])
                          | Some uploadedVideo \<Rightarrow>
                              (Inr (200, ApiResponse 200 (Doc (Some uploadedVideo))
                                      ''Video Uploaded successfully''),
                               d',
                               [Upload vp, Upload tp, Create videoToUpload,
                                FindById (Some (video_id videoToUpload))])))
                | _ \<Rightarrow>
                    (Inl (ApiError 500
                            ''Something went wrong while uploading the video or thumbnail''),
                     d, [Upload vp, Upload tp]))
           | _ \<Rightarrow> (Inl (ApiError 400 ''no video file or thumbnail detected''), d, []))
      | _ \<Rightarrow> (Inl (ApiError 400 ''Tilte and description are required fields''), d, []))))"

text \<open>\<open>getVideoById\<close>, which also reads the record with \<open>Video.findbyId\<close>.\<close>

definition getVideoById :: "env \<Rightarrow> db \<Rightarrow> request \<Rightarrow> outcome" where
  "getVideoById e d req =
     (let videoId = rq_videoId req in
      if falsy videoId then (Inl (ApiError 400 ''There is no such video''), d, [])
      else if ''findbyId'' \<notin> set Video_exposes
      then (Inl (not_a_function ''findbyId''), d, [])
      else
        (case findById d videoId of
           None \<Rightarrow> (Inl (ApiError 400 ''No video found''), d, [FindById videoId])
         | Some v \<Rightarrow>
             (Inr (200, ApiResponse 200 (Doc (Some v)) ''Video Found and fetched successfully''),
              d, [FindById videoId])))"

text \<open>
  \<open>updateVideo\<close>. The identifier is checked first, then the thumbnail path is read, then
  the body is validated; the record is read with \<open>Video.findById\<close>, the caller is compared
  with the stored owner (\<open>video.owner.toString()\<close> throws when the record has no owner),
  the new thumbnail is uploaded, the record is written with \<open>Video.findByIdAndUpdate\<close>, and
  last the old thumbnail is deleted when its URL is not empty.
\<close>

definition updateVideo :: "env \<Rightarrow> db \<Rightarrow> request \<Rightarrow> outcome" where
  "updateVideo e d req =
     (let videoId = rq_videoId req in
      if \<not> isValidObjectId e videoId then (Inl (ApiError 400 ''Invalid video ID''), d, [])
      else
     (case local_path files_thumbnail (rq_files req) of
        Inl x \<Rightarrow> (Inl x, d, [])
      | Inr thumbnailLocalPath \<Rightarrow>
     (case required thumbnailLocalPath of
        None \<Rightarrow> (Inl (ApiError 400 ''No thumbnail file detected''), d, [])
      | Some tp \<Rightarrow>
     (case (required_text (body_title (rq_body req)),
            required_text (body_description (rq_body req))) of
        (Some t, Some ds) \<Rightarrow>
          if ''findById'' \<notin> set Video_exposes
          then (Inl (not_a_function ''findById''), d, [])
          else
            (case findById d videoId of
               None \<Rightarrow> (Inl (ApiError 404 ''Video not found''), d, [FindById videoId])
             | Some v \<Rightarrow>
                 (case owner v of
                    None \<Rightarrow>
                      (Inl (TypeError ''Cannot read properties of undefined (reading toString)''),
                       d, [FindById videoId])
                  | Some ow \<Rightarrow>
                      if rq_user req \<noteq> Some ow
                      then (Inl (ApiError 403 ''You are not authorized to update this video''),
                            d, [FindById videoId])
                      else
                        (let oldThumbnail = thumbnail v in
                         case uploadOnCloudinary e tp of
                           None \<Rightarrow>
                             (Inl (ApiError 500 ''Failed to upload the new thumbnail''),
                              d, [FindById videoId, Upload tp])
                         | Some th \<Rightarrow>
                             if ''findByIdAndUpdate'' \<notin> set Video_exposes
                             then (Inl (not_a_function ''findByIdAndUpdate''), d,
                                   [FindById videoId, Upload tp])
                             else
                               (let d' = findByIdAndUpdate d videoId
                                           (\<lambda>w. w\<lparr>title := t, description := ds,
                                                   thumbnail := url th\<rparr>);
                                    updatedVideo = findById d' videoId
                                in
                                (Inr (200, ApiResponse 200 (Doc updatedVideo)
                                        ''The video is updated successfully''),
                                 d',
                                 [FindById videoId, Upload tp,
                                  FindByIdAndUpdate videoId t ds (url th)]
                                 @ (if oldThumbnail \<noteq> [] then [Delete oldThumbnail] else []))))))
      | _ \<Rightarrow> (Inl (ApiError 400 ''Title and description are required fields''), d, [])))))"

section \<open>An environment for concrete runs\<close>

text \<open>
  One instance of the collaborators, used to run the handlers on concrete requests.
  \<open>Number_decimal\<close> is the conversion on plain decimal literals (optional sign, digits,
  optional fraction), surrounded by white space, and on the empty string, rounded to the
  nearest double; it is only applied to such literals. Identifiers are 24 hexadecimal digits. The pattern match is
  the case-insensitive substring test, which is what a pattern without metacharacters
  means.
\<close>

definition digit_val :: "char \<Rightarrow> int option" where
  "digit_val c = (if CHR ''0'' \<le> c \<and> c \<le> CHR ''9'' then Some (of_char c - 48) else None)"

fun digits_val :: "string \<Rightarrow> int \<Rightarrow> int option" where
  "digits_val [] acc = Some acc"
| "digits_val (c # cs) acc =
     (case digit_val c of None \<Rightarrow> None | Some v \<Rightarrow> digits_val cs (10 * acc + v))"

definition unsigned_decimal :: "string \<Rightarrow> rat option" where
  "unsigned_decimal s =
     (let ip = takeWhile (\<lambda>c. c \<noteq> CHR ''.'') s;
          rest = dropWhile (\<lambda>c. c \<noteq> CHR ''.'') s
      in case rest of
           [] \<Rightarrow> (if ip = [] then None else map_option of_int (digits_val ip 0))
         | dot # fp \<Rightarrow>
             if ip = [] \<and> fp = [] then None
             else (case (digits_val ip 0, digits_val fp 0) of
                     (Some a, Some b) \<Rightarrow> Some (of_int a + of_int b / 10 ^ length fp)
                   | _ \<Rightarrow> None))"

definition Number_decimal :: "string \<Rightarrow> jsnum" where
  "Number_decimal s =
     (case trim s of
        [] \<Rightarrow> Fin 0
      | c # cs \<Rightarrow>
          if c = CHR ''-''
          then (case unsigned_decimal cs of None \<Rightarrow> NaN | Some r \<Rightarrow> round_double (- r))
          else if c = CHR ''+''
          then (case unsigned_decimal cs of None \<Rightarrow> NaN | Some r \<Rightarrow> round_double r)
          else (case unsigned_decimal (c # cs) of None \<Rightarrow> NaN | Some r \<Rightarrow> round_double r))"

definition hex_digit :: "char \<Rightarrow> bool" where
  "hex_digit c =
     ((CHR ''0'' \<le> c \<and> c \<le> CHR ''9'') \<or> (CHR ''a'' \<le> c \<and> c \<le> CHR ''f'') \<or>
      (CHR ''A'' \<le> c \<and> c \<le> CHR ''F''))"

definition hex24 :: "string option \<Rightarrow> bool" where
  "hex24 x = (case x of None \<Rightarrow> False | Some s \<Rightarrow> length s = 24 \<and> list_all hex_digit s)"

definition lower :: "char \<Rightarrow> char" where
  "lower c = (if CHR ''A'' \<le> c \<and> c \<le> CHR ''Z'' then char_of (of_char c + (32::nat)) else c)"

definition contains_ci :: "string \<Rightarrow> string \<Rightarrow> bool" where
  "contains_ci re t =
     list_ex (\<lambda>i. take (length re) (drop i (map lower t)) = map lower re) [0..<Suc (length t)]"

definition env0 :: env where
  "env0 =
     \<lparr>Number = Number_decimal,
      isValidObjectId = hex24,
      ObjectId = (\<lambda>x. case x of
                        None \<Rightarrow> Inr ''000000000000000000000000''
                      | Some s \<Rightarrow> if hex24 (Some s) then Inr s
                                  else Inl (Thrown ''input must be a 24 character hex string'')),
      RegExp_throws = (\<lambda>re. None),
      regex_test = contains_ci,
      uploadOnCloudinary =
        (\<lambda>p. if p = ''/tmp/broken'' then None
             else Some \<lparr>url = ''https://media/'' @ p, asset_duration = Some 42\<rparr>),
      new_document =
        (\<lambda>d. \<lparr>video_id = take 24 (replicate (length (videos d)) (CHR ''1'')
                                    @ replicate 24 (CHR ''0'')),
               videoFile = [], thumbnail = [], title = [], description = [],
               duration = None, views = 0, isPublished = True, owner = None,
               createdAt = int (length (videos d))\<rparr>)\<rparr>"

section \<open>Effects and example inputs\<close>

text \<open>The calls that change something outside the handler: uploads and deletions in the
  media store, and writes to the database. Reads are not side effects.\<close>

fun side_effect :: "event \<Rightarrow> bool" where
  "side_effect (Upload p) = True"
| "side_effect (Delete u) = True"
| "side_effect (Create v) = True"
| "side_effect (FindByIdAndUpdate i t ds u) = True"
| "side_effect (FindById i) = False"
| "side_effect (Aggregate pl) = False"

fun is_delete :: "event \<Rightarrow> bool" where
  "is_delete (Delete u) = True"
| "is_delete ev = False"

fun is_aggregate :: "event \<Rightarrow> bool" where
  "is_aggregate (Aggregate pl) = True"
| "is_aggregate ev = False"

fun is_upload :: "event \<Rightarrow> bool" where
  "is_upload (Upload p) = True"
| "is_upload ev = False"

text \<open>The inputs of an update other than the caller: a well-formed identifier, a thumbnail
  path, and a title and a description that are not blank.\<close>

definition valid_update_input :: "env \<Rightarrow> request \<Rightarrow> bool" where
  "valid_update_input e req =
     (isValidObjectId e (rq_videoId req) \<and>
      (case local_path files_thumbnail (rq_files req) of
         Inr (Some tp) \<Rightarrow> tp \<noteq> []
       | _ \<Rightarrow> False) \<and>
      required_text (body_title (rq_body req)) \<noteq> None \<and>
      required_text (body_description (rq_body req)) \<noteq> None)"

definition result :: "outcome \<Rightarrow> error + response" where
  "result x = fst x"

definition store :: "outcome \<Rightarrow> db" where
  "store x = fst (snd x)"

definition trace :: "outcome \<Rightarrow> event list" where
  "trace x = snd (snd x)"

text \<open>The records the listing ranks: the output of the match, lookup, addFields and sort
  stages, before the page is cut out.\<close>

definition ranked :: "env \<Rightarrow> db \<Rightarrow> string \<Rightarrow> string \<Rightarrow> query_params \<Rightarrow> doc list" where
  "ranked e d u re q =
     (case run_pipeline e d (take 4 (listing_pipeline u re e q)) (map video_doc (videos d)) of
        Inl x \<Rightarrow> []
      | Inr ds \<Rightarrow> ds)"

definition page_projection :: "doc \<Rightarrow> doc" where
  "page_projection =
     project [''_id'', ''title'', ''videoFile'', ''thumbnail'', ''views'', ''duration'',
              ''createdAt'', ''owner'']
             [(''ownerName'', ''ownerInfo.fullName''), (''ownerAvatar'', ''ownerInfo.avatar'')]"

text \<open>The join of a video with its owner (the lookup and addFields stages), and the
  joined rows of the videos that pass the match stage.\<close>

definition owner_join :: "db \<Rightarrow> doc \<Rightarrow> doc" where
  "owner_join d x =
     add_first ''ownerInfo'' ''ownerInfo''
       (lookup_doc (collection d ''users'') ''owner'' ''_id'' ''ownerInfo'' x)"

definition joined :: "env \<Rightarrow> db \<Rightarrow> string \<Rightarrow> string \<Rightarrow> doc list" where
  "joined e d u re =
     map (owner_join d) (filter (matches e u True re) (map video_doc (videos d)))"

definition alice :: string where
  "alice = ''aaaaaaaaaaaaaaaaaaaaaaaa''"

definition bob :: string where
  "bob = ''bbbbbbbbbbbbbbbbbbbbbbbb''"

definition mk_video :: "string \<Rightarrow> string \<Rightarrow> rat \<Rightarrow> string \<Rightarrow> video" where
  "mk_video i t n u =
     \<lparr>video_id = i, videoFile = ''https://media/'' @ i @ ''.mp4'',
      thumbnail = ''https://media/'' @ i @ ''.png'', title = t, description = ''about '' @ t,
      duration = Some 60, views = n, isPublished = True, owner = Some u, createdAt = 0\<rparr>"

definition db_empty :: db where
  "db_empty = \<lparr>videos = [], users = []\<rparr>"

definition db1 :: db where
  "db1 =
     \<lparr>videos =
        [mk_video ''111111111111111111111111'' ''Cat naps'' 30 alice,
         mk_video ''222222222222222222222222'' ''Dog walk'' 5 alice,
         mk_video ''333333333333333333333333'' ''My CAT video'' 10 alice,
         mk_video ''444444444444444444444444'' ''cat tricks'' 20 alice,
         mk_video ''555555555555555555555555'' ''Cats of Bob'' 1 bob],
      users =
        [\<lparr>user_id = alice, fullName = ''Alice'', username = ''alice'',
          avatar = ''https://media/alice.png''\<rparr>,
         \<lparr>user_id = bob, fullName = ''Bob'', username = ''bob'',
          avatar = ''https://media/bob.png''\<rparr>]\<rparr>"

definition no_query :: query_params where
  "no_query =
     \<lparr>page = None, limit = None, query = None, sortBy = None, sortType = None,
      userId = None\<rparr>"

definition no_request :: request where
  "no_request =
     \<lparr>rq_query = no_query, rq_body = \<lparr>body_title = None, body_description = None\<rparr>,
      rq_videoId = None, rq_files = None, rq_user = None\<rparr>"

definition one_file :: "string \<Rightarrow> multer_file list option" where
  "one_file p = Some [\<lparr>path = Some p\<rparr>]"

text \<open>A well-formed create request by Alice.\<close>

definition req_publish :: request where
  "req_publish =
     no_request
       \<lparr>rq_body := \<lparr>body_title = Some ''Cats'', body_description = Some ''A cat''\<rparr>,
        rq_files := Some \<lparr>files_videoFile = one_file ''/tmp/v.mp4'',
                          files_thumbnail = one_file ''/tmp/t.png''\<rparr>,
        rq_user := Some alice\<rparr>"

text \<open>A create request whose video upload fails.\<close>

definition req_publish_broken :: request where
  "req_publish_broken =
     req_publish
       \<lparr>rq_files := Some \<lparr>files_videoFile = one_file ''/tmp/broken'',
                          files_thumbnail = one_file ''/tmp/t.png''\<rparr>\<rparr>"

text \<open>A retrieval of an identifier that no stored video has.\<close>

definition req_get_unknown :: request where
  "req_get_unknown = no_request\<lparr>rq_videoId := Some ''999999999999999999999999''\<rparr>"

text \<open>Listings: page 1.5; page 2 of size 2 of Alice's cat videos by views; the same
  without a user.\<close>

definition req_list_fraction :: request where
  "req_list_fraction =
     no_request\<lparr>rq_query := no_query\<lparr>page := Some ''1.5'', limit := Some ''10'',
                                       query := Some ''cat''\<rparr>\<rparr>"

definition q_page2 :: query_params where
  "q_page2 =
     no_query\<lparr>page := Some ''2'', limit := Some ''2'', query := Some ''cat'',
              sortBy := Some ''views'', userId := Some alice\<rparr>"

definition req_list_page2 :: request where
  "req_list_page2 = no_request\<lparr>rq_query := q_page2\<rparr>"

definition req_list_desc :: request where
  "req_list_desc =
     no_request\<lparr>rq_query := q_page2\<lparr>page := Some ''1'', limit := Some ''3'',
                                      sortType := Some ''desc''\<rparr>\<rparr>"

text \<open>A listing of page \<open>2 ^ 53\<close> with three records a page.\<close>

definition req_list_huge :: request where
  "req_list_huge =
     no_request\<lparr>rq_query := q_page2\<lparr>page := Some ''9007199254740992'', limit := Some ''3''\<rparr>\<rparr>"

definition req_list_nouser :: request where
  "req_list_nouser = no_request\<lparr>rq_query := no_query\<lparr>query := Some ''cat''\<rparr>\<rparr>"

text \<open>Updates of Alice's first video: by Bob, by Alice, and one with a malformed
  identifier and a \<open>files\<close> object that has no thumbnail field.\<close>

definition req_update_bob :: request where
  "req_update_bob =
     no_request
       \<lparr>rq_body := \<lparr>body_title = Some ''New title'', body_description = Some ''New text''\<rparr>,
        rq_videoId := Some ''111111111111111111111111'',
        rq_files := Some \<lparr>files_videoFile = None, files_thumbnail = one_file ''/tmp/new.png''\<rparr>,
        rq_user := Some bob\<rparr>"

definition req_update_alice :: request where
  "req_update_alice = req_update_bob\<lparr>rq_user := Some alice\<rparr>"

definition req_update_badid :: request where
  "req_update_badid =
     req_update_alice
       \<lparr>rq_videoId := Some ''not-an-id'',
        rq_files := Some \<lparr>files_videoFile = None, files_thumbnail = None\<rparr>\<rparr>"

definition req_update_nothumb :: request where
  "req_update_nothumb =
     req_update_alice\<lparr>rq_files := Some \<lparr>files_videoFile = None, files_thumbnail = None\<rparr>\<rparr>"

definition req_publish_novideo :: request where
  "req_publish_novideo =
     req_publish
       \<lparr>rq_files := Some \<lparr>files_videoFile = None, files_thumbnail = one_file ''/tmp/t.png''\<rparr>\<rparr>"

text \<open>A create and an update with a blank title.\<close>

definition req_publish_blank :: request where
  "req_publish_blank =
     req_publish\<lparr>rq_body := \<lparr>body_title = Some ''  '', body_description = Some ''A cat''\<rparr>\<rparr>"

definition req_update_blank :: request where
  "req_update_blank =
     req_update_alice\<lparr>rq_body := \<lparr>body_title = Some ''  '', body_description = Some ''New text''\<rparr>\<rparr>"

section \<open>Evaluation lemmas\<close>

lemmas js_defs = falsy_def required_def required_text_def trim_def isWhiteSpace_def
  local_path_def Video_exposes_def not_a_function_def result_def store_def trace_def

lemmas example_defs = env0_def db_empty_def db1_def no_query_def no_request_def one_file_def
  req_publish_def req_publish_broken_def req_get_unknown_def req_list_fraction_def q_page2_def
  req_list_page2_def req_list_desc_def req_list_nouser_def req_list_huge_def req_update_bob_def
  req_update_alice_def req_update_badid_def req_update_nothumb_def req_publish_novideo_def
  req_publish_blank_def req_update_blank_def
  alice_def bob_def mk_video_def hex24_def hex_digit_def

section \<open>Retrieval\<close>

text \<open>Whatever identifier is given, \<open>getVideoById\<close> ends in one of two errors: the
  validation error for a missing identifier, or the TypeError of calling
  \<open>Video.findbyId\<close>. The lookup itself is never reached.\<close>

lemma getVideoById_outcome:
  "getVideoById e d req =
     (if falsy (rq_videoId req) then (Inl (ApiError 400 ''There is no such video''), d, [])
      else (Inl (TypeError ''Video.findbyId is not a function''), d, []))"
  by (simp add: getVideoById_def Video_exposes_def not_a_function_def)

text \<open>
  C9: a retrieval whose identifier matches no stored video should fail with the
  not-found error (status 400, "No video found"). On the store \<open>db1\<close>, which has no video
  with the identifier of \<open>req_get_unknown\<close>, the handler throws the TypeError of line 158
  instead; \<open>updateVideo\<close> reads the record with \<open>Video.findById\<close>.
\<close>

theorem getVideoById_unknown_id_throws:
  "findById db1 (rq_videoId req_get_unknown) = None \<and>
   getVideoById env0 db1 req_get_unknown =
     (Inl (TypeError ''Video.findbyId is not a function''), db1, [])"
  by (simp add: getVideoById_outcome findById_def js_defs example_defs)

section \<open>Create\<close>

text \<open>No run of \<open>publishAVideo\<close> ends with a response.\<close>

lemma publishAVideo_never_succeeds: "result (publishAVideo e d req) \<noteq> Inr r"
  by (simp add: publishAVideo_def js_defs Let_def split: sum.splits option.splits prod.splits)

text \<open>
  C1: a create request that passes validation and whose uploads succeed should persist
  the video, re-read it and answer 200 with the uploaded duration and the caller as
  owner. On \<open>req_publish\<close> the record is persisted with duration 42 (the duration the
  media store reports) and owner Alice, and then the re-read of line 138,
  \<open>Video.findbyId\<close>, throws a TypeError: no response is sent.
\<close>

theorem publishAVideo_valid_request_throws:
  "publishAVideo env0 db_empty req_publish =
     (Inl (TypeError ''Video.findbyId is not a function''),
      \<lparr>videos =
         [\<lparr>video_id = ''000000000000000000000000'', videoFile = ''https://media//tmp/v.mp4'',
           thumbnail = ''https://media//tmp/t.png'', title = ''Cats'', description = ''A cat'',
           duration = Some 42, views = 0, isPublished = True, owner = Some alice,
           createdAt = 0\<rparr>],
       users = []\<rparr>,
      [Upload ''/tmp/v.mp4'', Upload ''/tmp/t.png'',
       Create
         \<lparr>video_id = ''000000000000000000000000'', videoFile = ''https://media//tmp/v.mp4'',
          thumbnail = ''https://media//tmp/t.png'', title = ''Cats'', description = ''A cat'',
          duration = Some 42, views = 0, isPublished = True, owner = Some alice,
          createdAt = 0\<rparr>])"
  by code_simp

text \<open>
  C8: in the create workflow the video file is uploaded before the thumbnail file; if
  either upload returns no result the handler fails with the Internal error (500), and
  nothing else has happened: no further upload (no retry), no deletion (no cleanup of the
  upload that succeeded), no database call.
\<close>

theorem publishAVideo_upload_order_and_failure:
  assumes "local_path files_videoFile (rq_files req) = Inr (Some vp)" and "vp \<noteq> []"
    and "local_path files_thumbnail (rq_files req) = Inr (Some tp)" and "tp \<noteq> []"
    and "required_text (body_title (rq_body req)) = Some t"
    and "required_text (body_description (rq_body req)) = Some ds"
  shows "(\<exists>rest. trace (publishAVideo e d req) = Upload vp # Upload tp # rest \<and>
            list_all (\<lambda>ev. \<not> is_upload ev \<and> \<not> is_delete ev) rest) \<and>
         (uploadOnCloudinary e vp = None \<or> uploadOnCloudinary e tp = None \<longrightarrow>
            publishAVideo e d req =
              (Inl (ApiError 500 ''Something went wrong while uploading the video or thumbnail''),
               d, [Upload vp, Upload tp]))"
  using assms
  by (simp add: publishAVideo_def required_def falsy_def trace_def Video_exposes_def Let_def
      split: option.splits)

theorem publishAVideo_upload_order_and_failure_witness:
  "local_path files_videoFile (rq_files req_publish_broken) = Inr (Some ''/tmp/broken'') \<and>
   local_path files_thumbnail (rq_files req_publish_broken) = Inr (Some ''/tmp/t.png'') \<and>
   required_text (body_title (rq_body req_publish_broken)) = Some ''Cats'' \<and>
   required_text (body_description (rq_body req_publish_broken)) = Some ''A cat'' \<and>
   uploadOnCloudinary env0 ''/tmp/broken'' = None \<and>
   publishAVideo env0 db1 req_publish_broken =
     (Inl (ApiError 500 ''Something went wrong while uploading the video or thumbnail''),
      db1, [Upload ''/tmp/broken'', Upload ''/tmp/t.png''])"
proof -
  have v: "local_path files_videoFile (rq_files req_publish_broken) = Inr (Some ''/tmp/broken'')"
    by (simp add: js_defs example_defs)
  have th: "local_path files_thumbnail (rq_files req_publish_broken) = Inr (Some ''/tmp/t.png'')"
    by (simp add: js_defs example_defs)
  have t: "required_text (body_title (rq_body req_publish_broken)) = Some ''Cats''"
    by (simp add: js_defs example_defs)
  have ds: "required_text (body_description (rq_body req_publish_broken)) = Some ''A cat''"
    by (simp add: js_defs example_defs)
  have u: "uploadOnCloudinary env0 ''/tmp/broken'' = None"
    by (simp add: env0_def)
  from publishAVideo_upload_order_and_failure [OF v _ th _ t ds, of env0 db1] u
  show ?thesis using v th t ds by simp
qed

section \<open>Update\<close>

text \<open>
  C6: an update of an existing video by a caller who is not its owner fails, leaves the
  store as it was and makes no upload, deletion or database write; when the other inputs
  are valid the failure is the Authorization error (403), raised right after the read.
\<close>

theorem updateVideo_non_owner_forbidden:
  assumes "findById d (rq_videoId req) = Some v" and "owner v = Some ow"
    and "rq_user req \<noteq> Some ow"
  shows "(\<exists>x. result (updateVideo e d req) = Inl x) \<and>
         store (updateVideo e d req) = d \<and>
         list_all (\<lambda>ev. \<not> side_effect ev) (trace (updateVideo e d req)) \<and>
         (valid_update_input e req \<longrightarrow>
            updateVideo e d req =
              (Inl (ApiError 403 ''You are not authorized to update this video''), d,
               [FindById (rq_videoId req)]))"
  using assms
  by (auto simp add: updateVideo_def valid_update_input_def required_def falsy_def result_def
      store_def trace_def Video_exposes_def Let_def split: option.splits sum.splits)

theorem updateVideo_non_owner_forbidden_witness:
  "findById db1 (rq_videoId req_update_bob) =
     Some (mk_video ''111111111111111111111111'' ''Cat naps'' 30 alice) \<and>
   rq_user req_update_bob = Some bob \<and> bob \<noteq> alice \<and>
   valid_update_input env0 req_update_bob \<and>
   updateVideo env0 db1 req_update_bob =
     (Inl (ApiError 403 ''You are not authorized to update this video''), db1,
      [FindById (Some ''111111111111111111111111'')])"
proof -
  have f: "findById db1 (rq_videoId req_update_bob) =
      Some (mk_video ''111111111111111111111111'' ''Cat naps'' 30 alice)"
    by (simp add: findById_def example_defs)
  have ow: "owner (mk_video ''111111111111111111111111'' ''Cat naps'' 30 alice) = Some alice"
    by (simp add: mk_video_def)
  have u: "rq_user req_update_bob \<noteq> Some alice"
    by (simp add: example_defs)
  have va: "valid_update_input env0 req_update_bob"
    by (simp add: valid_update_input_def js_defs example_defs)
  from updateVideo_non_owner_forbidden [OF f ow u, of env0] va
  show ?thesis using f by (simp add: example_defs)
qed

text \<open>
  C7: in a successful update of a video whose stored thumbnail URL is not empty (the
  data model's invariant), exactly one deletion is issued, it targets the old thumbnail,
  and it is the last call, right after the database write; no deletion precedes the write,
  and the store the handler leaves is the written one.
\<close>

theorem updateVideo_old_thumbnail_deleted_after_write:
  assumes "updateVideo e d req = (Inr r, d', tr)"
    and "findById d (rq_videoId req) = Some v" and "thumbnail v \<noteq> []"
  shows "filter is_delete tr = [Delete (thumbnail v)] \<and>
         (\<exists>pre t ds u.
            tr = pre @ [FindByIdAndUpdate (rq_videoId req) t ds u, Delete (thumbnail v)] \<and>
            list_all (\<lambda>ev. \<not> is_delete ev) pre \<and>
            d' = findByIdAndUpdate d (rq_videoId req)
                   (\<lambda>w. w\<lparr>title := t, description := ds, thumbnail := u\<rparr>))"
  using assms
  by (auto simp add: updateVideo_def Video_exposes_def Let_def
      split: option.splits sum.splits if_splits)

theorem updateVideo_old_thumbnail_deleted_after_write_witness:
  "result (updateVideo env0 db1 req_update_alice) =
     Inr (200, ApiResponse 200
       (Doc (Some ((mk_video ''111111111111111111111111'' ''Cat naps'' 30 alice)
          \<lparr>title := ''New title'', description := ''New text'',
           thumbnail := ''https://media//tmp/new.png''\<rparr>)))
       ''The video is updated successfully'') \<and>
   filter is_delete (trace (updateVideo env0 db1 req_update_alice)) =
     [Delete ''https://media/111111111111111111111111.png'']"
proof -
  obtain r d' tr where run: "updateVideo env0 db1 req_update_alice = (r, d', tr)"
    by (cases "updateVideo env0 db1 req_update_alice") auto
  have r: "r = Inr (200, ApiResponse 200
       (Doc (Some ((mk_video ''111111111111111111111111'' ''Cat naps'' 30 alice)
          \<lparr>title := ''New title'', description := ''New text'',
           thumbnail := ''https://media//tmp/new.png''\<rparr>)))
       ''The video is updated successfully'')"
    using run
    by (simp add: updateVideo_def findById_def findByIdAndUpdate_def js_defs example_defs Let_def)
  have f: "findById db1 (rq_videoId req_update_alice) =
      Some (mk_video ''111111111111111111111111'' ''Cat naps'' 30 alice)"
    by (simp add: findById_def example_defs)
  have th: "thumbnail (mk_video ''111111111111111111111111'' ''Cat naps'' 30 alice) \<noteq> []"
    by (simp add: mk_video_def)
  from updateVideo_old_thumbnail_deleted_after_write [OF run [unfolded r] f th]
  show ?thesis using run r by (simp add: result_def trace_def mk_video_def)
qed

section \<open>Missing file fields\<close>

text \<open>
  C10, as stated, fails for \<open>updateVideo\<close>: the identifier check of line 172 runs before
  the thumbnail path is read, so with a malformed identifier the handler answers 400
  although \<open>files\<close> is present and has no thumbnail field.
\<close>

theorem updateVideo_malformed_id_checked_first:
  "rq_files req_update_badid = Some \<lparr>files_videoFile = None, files_thumbnail = None\<rparr> \<and>
   updateVideo env0 db1 req_update_badid = (Inl (ApiError 400 ''Invalid video ID''), db1, [])"
  by (simp add: updateVideo_def js_defs example_defs)

text \<open>
  C10, amended: when \<open>files\<close> is present and lacks the videoFile or the thumbnail field,
  \<open>publishAVideo\<close> throws a TypeError before any validation; when \<open>files\<close> is present and
  lacks the thumbnail field, \<open>updateVideo\<close> throws the TypeError if the identifier is
  well-formed and fails with 400 "Invalid video ID" otherwise. With \<open>files\<close> present, a
  400 of \<open>publishAVideo\<close>, and a 400 of \<open>updateVideo\<close> other than "Invalid video ID", is
  reached only when the field arrays exist.
\<close>

theorem missing_file_field_throws:
  assumes "rq_files req = Some fs"
  shows "(files_videoFile fs = None \<or> files_thumbnail fs = None \<longrightarrow>
            publishAVideo e d req =
              (Inl (TypeError ''Cannot read properties of undefined (reading 0)''), d, [])) \<and>
         (files_thumbnail fs = None \<longrightarrow>
            updateVideo e d req =
              (if isValidObjectId e (rq_videoId req)
               then (Inl (TypeError ''Cannot read properties of undefined (reading 0)''), d, [])
               else (Inl (ApiError 400 ''Invalid video ID''), d, []))) \<and>
         (\<forall>m. result (publishAVideo e d req) = Inl (ApiError 400 m) \<longrightarrow>
            files_videoFile fs \<noteq> None \<and> files_thumbnail fs \<noteq> None) \<and>
         (\<forall>m. result (updateVideo e d req) = Inl (ApiError 400 m) \<and> m \<noteq> ''Invalid video ID'' \<longrightarrow>
            files_thumbnail fs \<noteq> None)"
proof (intro conjI impI allI)
  assume "files_videoFile fs = None \<or> files_thumbnail fs = None"
  with assms show "publishAVideo e d req =
      (Inl (TypeError ''Cannot read properties of undefined (reading 0)''), d, [])"
    by (auto simp add: publishAVideo_def local_path_def split: option.splits list.splits)
next
  assume "files_thumbnail fs = None"
  with assms show "updateVideo e d req =
      (if isValidObjectId e (rq_videoId req)
       then (Inl (TypeError ''Cannot read properties of undefined (reading 0)''), d, [])
       else (Inl (ApiError 400 ''Invalid video ID''), d, []))"
    by (simp add: updateVideo_def local_path_def)
next
  fix m assume "result (publishAVideo e d req) = Inl (ApiError 400 m)"
  with assms show "files_videoFile fs \<noteq> None"
    by (auto simp add: publishAVideo_def local_path_def result_def split: option.splits)
next
  fix m assume "result (publishAVideo e d req) = Inl (ApiError 400 m)"
  with assms show "files_thumbnail fs \<noteq> None"
    by (auto simp add: publishAVideo_def local_path_def result_def
        split: option.splits list.splits)
next
  fix m assume "result (updateVideo e d req) = Inl (ApiError 400 m) \<and> m \<noteq> ''Invalid video ID''"
  with assms show "files_thumbnail fs \<noteq> None"
    by (cases "files_thumbnail fs")
      (auto simp add: updateVideo_def local_path_def result_def Let_def split: if_splits)
qed

theorem missing_file_field_throws_witness:
  "publishAVideo env0 db1 req_publish_novideo =
     (Inl (TypeError ''Cannot read properties of undefined (reading 0)''), db1, []) \<and>
   isValidObjectId env0 (rq_videoId req_update_nothumb) \<and>
   updateVideo env0 db1 req_update_nothumb =
     (Inl (TypeError ''Cannot read properties of undefined (reading 0)''), db1, []) \<and>
   result (publishAVideo env0 db1 req_publish_blank) =
     Inl (ApiError 400 ''Tilte and description are required fields'') \<and>
   (\<exists>fs. rq_files req_publish_blank = Some fs \<and> files_videoFile fs \<noteq> None \<and>
      files_thumbnail fs \<noteq> None) \<and>
   result (updateVideo env0 db1 req_update_blank) =
     Inl (ApiError 400 ''Title and description are required fields'') \<and>
   (\<exists>fs. rq_files req_update_blank = Some fs \<and> files_thumbnail fs \<noteq> None)"
proof -
  have f1: "rq_files req_publish_novideo =
      Some \<lparr>files_videoFile = None, files_thumbnail = one_file ''/tmp/t.png''\<rparr>"
    by (simp add: example_defs)
  have f2: "rq_files req_update_nothumb = Some \<lparr>files_videoFile = None, files_thumbnail = None\<rparr>"
    by (simp add: example_defs)
  have v2: "isValidObjectId env0 (rq_videoId req_update_nothumb)"
    by (simp add: example_defs)
  have f3: "rq_files req_publish_blank =
      Some \<lparr>files_videoFile = one_file ''/tmp/v.mp4'', files_thumbnail = one_file ''/tmp/t.png''\<rparr>"
    by (simp add: req_publish_blank_def example_defs)
  have r3: "result (publishAVideo env0 db1 req_publish_blank) =
      Inl (ApiError 400 ''Tilte and description are required fields'')"
    by (simp add: publishAVideo_def req_publish_blank_def js_defs example_defs)
  have f4: "rq_files req_update_blank =
      Some \<lparr>files_videoFile = None, files_thumbnail = one_file ''/tmp/new.png''\<rparr>"
    by (simp add: req_update_blank_def example_defs)
  have r4: "result (updateVideo env0 db1 req_update_blank) =
      Inl (ApiError 400 ''Title and description are required fields'')"
    by (simp add: updateVideo_def req_update_blank_def js_defs example_defs)
  from missing_file_field_throws [OF f1, of env0 db1]
    missing_file_field_throws [OF f2, of env0 db1]
    missing_file_field_throws [OF f3, of env0 db1]
    missing_file_field_throws [OF f4, of env0 db1]
  show ?thesis using v2 r3 r4 f3 f4 by simp
qed

section \<open>Listing\<close>

text \<open>
  C3: a listing whose page does not parse to an integer should fail with the Validation
  error (400, "Page should be a positive integer") and issue no query. With
  \<open>page = "1.5"\<close> the checks of lines 21 to 26, which test \<open>Number.isFinite\<close> and
  \<open>< 1\<close> only, pass: the query is issued, with \<open>$skip: 5\<close>, and the answer is 200.
\<close>

theorem getAllVideos_fractional_page_accepted:
  "pageNum env0 (rq_query req_list_fraction) = Fin (3 / 2) \<and>
   result (getAllVideos env0 db1 req_list_fraction) =
     Inr (200, ApiResponse 200 (Rows []) ''All videos fetched successfully'') \<and>
   trace (getAllVideos env0 db1 req_list_fraction) =
     [Aggregate (listing_pipeline ''000000000000000000000000'' ''cat'' env0
        (rq_query req_list_fraction))]"
  by code_simp

theorem getAllVideos_fractional_page_accepted_witness:
  "(\<exists>r. result (getAllVideos env0 db1 req_list_fraction) = Inr r) \<and>
   list_ex is_aggregate (trace (getAllVideos env0 db1 req_list_fraction))"
  using getAllVideos_fractional_page_accepted by simp

section \<open>The listing pipeline\<close>

text \<open>Field access in documents that were extended, reduced or projected.\<close>

lemma get_field_field:
  "get_field h ks x = (case field h x of None \<Rightarrow> None | Some v \<Rightarrow> get_path ks v)"
  by (induction x) (auto simp add: field_def)

lemma field_remove_field [simp]: "field k (remove_field k x) = None"
  by (induction x) (auto simp add: field_def remove_field_def)

lemma field_append:
  "field k (x @ y) = (case field k x of None \<Rightarrow> field k y | Some v \<Rightarrow> Some v)"
  by (induction x) (auto simp add: field_def)

lemma field_set_field [simp]: "field k (set_field k v x) = Some v"
  by (simp add: set_field_def field_append) (simp add: field_def)

lemma first_defined_lookup_doc: "first_defined as (lookup_doc coll l f as x)"
  by (simp add: first_defined_def lookup_doc_def)

lemma list_all_first_defined:
  "list_all (first_defined as) (map (lookup_doc coll l f as) xs)"
  by (simp add: list_all_iff first_defined_lookup_doc)

lemma ranked_eq:
  "ranked e d u re q =
     (if sortType q = Some ''desc''
      then rev (sort_key (sort_value (sort_field q)) (joined e d u re))
      else sort_key (sort_value (sort_field q)) (joined e d u re))"
  by (simp add: ranked_def listing_pipeline_def list_all_first_defined joined_def
      owner_join_def [abs_def] sort_order_def comp_def)

lemma run_listing_pipeline:
  "aggregate e d (listing_pipeline u re e q) =
     (case run_stage e d (Skip (startIndex e q)) (ranked e d u re q) of
        Inl x \<Rightarrow> Inl x
      | Inr xs \<Rightarrow>
          (case run_stage e d (Limit (limitNum e q)) xs of
             Inl x \<Rightarrow> Inl x
           | Inr ys \<Rightarrow> Inr (map page_projection ys)))"
  by (simp add: aggregate_def ranked_def listing_pipeline_def list_all_first_defined
      sort_order_def page_projection_def split: sum.splits)

lemma aggregate_listing_rows:
  assumes "aggregate e d (listing_pipeline u re e q) = Inr rows"
  shows "\<exists>n k. rows = map page_projection (take k (drop n (ranked e d u re q)))"
  using assms
  by (auto simp add: run_listing_pipeline split: sum.splits jsnum.splits if_splits)

lemma integral_of_nat [simp]: "integral (of_nat n)"
  by (simp add: integral_def)

text \<open>Rounding leaves the integers below \<open>2 ^ 53\<close> as they are, so the start index of
  a page is exact as long as it stays below that bound.\<close>

lemma bit_length_le: "n < 2 ^ w \<Longrightarrow> bit_length n \<le> w"
proof (induction w arbitrary: n)
  case 0
  then show ?case by (simp add: bit_length.simps)
next
  case (Suc w)
  show ?case
  proof (cases "n \<le> 0")
    case True
    then show ?thesis by (simp add: bit_length.simps)
  next
    case False
    from Suc.prems have "n div 2 < 2 ^ w"
      by simp
    then have "bit_length (n div 2) \<le> w"
      by (rule Suc.IH)
    with False show ?thesis
      by (subst bit_length.simps) simp
  qed
qed

lemma pow2_nonpositive: "k \<le> 0 \<Longrightarrow> pow2 k = 1 / 2 ^ nat (- k)"
  by (auto simp add: pow2_def)

lemma round_half_even_of_nat [simp]: "round_half_even (of_nat m) = int m"
  by (simp add: round_half_even_def)

text \<open>Natural numbers below \<open>2 ^ 53\<close> are doubles: rounding leaves them as they are.\<close>

lemma round_double_of_nat:
  assumes "n < 2 ^ 53"
  shows "round_double (of_nat n) = Fin (of_nat n)"
proof (cases "n = 0")
  case True
  then show ?thesis by (simp add: round_double_def)
next
  case False
  define k where "k = 53 - bit_length (int n)"
  have "int n < 2 ^ 53"
    using assms by (metis of_nat_less_iff of_nat_numeral of_nat_power)
  then have bl: "bit_length (int n) \<le> 53"
    by (rule bit_length_le)
  have one: "(1::rat) \<le> of_nat n"
    using False by simp
  have e: "binary_exponent (of_nat n) = int (bit_length (int n)) - 1"
    using one by (simp add: binary_exponent_def)
  have small: "\<not> 1024 \<le> binary_exponent (of_nat n)" "binary_exponent (of_nat n) \<noteq> 1023"
    using bl unfolding e by simp_all
  have "binary_exponent (of_nat n) - 52 = - int k"
    using bl unfolding e by (simp add: k_def)
  then have ulp: "pow2 (binary_exponent (of_nat n) - 52) = 1 / 2 ^ k"
    by (simp add: pow2_nonpositive)
  have q: "rat_of_nat n / (1 / 2 ^ k) = of_nat (n * 2 ^ k)"
    by simp
  have v: "of_int (round_half_even (rat_of_nat n / (1 / 2 ^ k))) * (1 / 2 ^ k) = rat_of_nat n"
    unfolding q round_half_even_of_nat by simp
  have pos: "(0::rat) < of_nat n" "rat_of_nat n \<noteq> 0" "\<bar>rat_of_nat n\<bar> = of_nat n"
    using False by simp_all
  show ?thesis
    unfolding round_double_def Let_def pos(3) ulp v
    using small pos by simp
qed

lemma js_sub_one:
  assumes "1 \<le> p" and "p - 1 < 2 ^ 53"
  shows "js_sub (Fin (of_nat p)) (Fin 1) = Fin (of_nat (p - 1))"
proof -
  have "rat_of_nat p - 1 = rat_of_nat (p - 1)"
    using assms(1) by (simp add: of_nat_diff)
  then show ?thesis
    by (simp only: js_sub.simps round_double_of_nat [OF assms(2)])
qed

lemma js_mul_of_nat:
  assumes "a * b < 2 ^ 53"
  shows "js_mul (Fin (of_nat a)) (Fin (of_nat b)) = Fin (of_nat (a * b))"
  using round_double_of_nat [OF assms] by (simp only: js_mul.simps of_nat_mult)

lemma startIndex_page:
  assumes "pageNum e q = Fin (of_nat p)" and "1 \<le> p" and "limitNum e q = Fin (of_nat l)"
    and "1 \<le> l" and "(p - 1) * l < 2 ^ 53"
  shows "startIndex e q = Fin (of_nat ((p - 1) * l))"
proof -
  have "p - 1 \<le> (p - 1) * l"
    using assms(4) by simp
  then have "p - 1 < 2 ^ 53"
    using assms(5) by (rule le_less_trans)
  with assms(2) have "js_sub (Fin (of_nat p)) (Fin 1) = Fin (of_nat (p - 1))"
    by (rule js_sub_one)
  then show ?thesis
    unfolding startIndex_def assms(1) assms(3) by (simp only: js_mul_of_nat [OF assms(5)])
qed

lemma aggregate_listing_page:
  assumes "pageNum e q = Fin (of_nat p)" and "1 \<le> p" and "limitNum e q = Fin (of_nat l)"
    and "1 \<le> l" and "(p - 1) * l < 2 ^ 53"
  shows "aggregate e d (listing_pipeline u re e q) =
           Inr (map page_projection (take l (drop ((p - 1) * l) (ranked e d u re q))))"
proof -
  define n where "n = (p - 1) * l"
  have "startIndex e q = Fin (of_nat n)"
    unfolding n_def using assms by (rule startIndex_page)
  then have "aggregate e d (listing_pipeline u re e q) =
      Inr (map page_projection (take l (drop n (ranked e d u re q))))"
    using assms(3,4) by (simp add: run_listing_pipeline)
  then show ?thesis
    by (simp add: n_def)
qed

lemma integral_numeral [simp]: "integral (numeral k)"
  by (simp add: integral_def)

text \<open>A listing that passes validation runs the query; a listing that answered ran
  it.\<close>

lemma getAllVideos_valid:
  assumes "Number_isFinite (pageNum e (rq_query req))"
    and "\<not> js_lt (pageNum e (rq_query req)) (Fin 1)"
    and "Number_isFinite (limitNum e (rq_query req))"
    and "\<not> js_lt (limitNum e (rq_query req)) (Fin 1)"
    and "required_text (query (rq_query req)) = Some qs"
    and "falsy (userId (rq_query req)) \<or> isValidObjectId e (userId (rq_query req))"
    and "ObjectId e (userId (rq_query req)) = Inr u"
    and "RegExp_throws e (trim qs) = None"
  shows "getAllVideos e d req =
     (case aggregate e d (listing_pipeline u (trim qs) e (rq_query req)) of
        Inl x \<Rightarrow> (Inl x, d, [Aggregate (listing_pipeline u (trim qs) e (rq_query req))])
      | Inr rows \<Rightarrow>
          (Inr (200, ApiResponse 200 (Rows rows) ''All videos fetched successfully''), d,
           [Aggregate (listing_pipeline u (trim qs) e (rq_query req))]))"
proof (cases "falsy (userId (rq_query req))")
  case True
  with assms(1-5,7,8) show ?thesis
    unfolding getAllVideos_def Let_def by (simp add: Video_exposes_def)
next
  case False
  with assms(6) have "isValidObjectId e (userId (rq_query req))"
    by simp
  with assms(1-5,7,8) show ?thesis
    unfolding getAllVideos_def Let_def by (simp add: Video_exposes_def)
qed


lemma getAllVideos_invalid:
  assumes "\<not> Number_isFinite (pageNum e (rq_query req)) \<or>
           js_lt (pageNum e (rq_query req)) (Fin 1) \<or>
           \<not> Number_isFinite (limitNum e (rq_query req)) \<or>
           js_lt (limitNum e (rq_query req)) (Fin 1) \<or>
           required_text (query (rq_query req)) = None \<or>
           (\<not> falsy (userId (rq_query req)) \<and> \<not> isValidObjectId e (userId (rq_query req)))"
  shows "\<exists>m. getAllVideos e d req = (Inl (ApiError 400 m), d, [])"
  using assms unfolding getAllVideos_def Let_def
  by (auto split: option.splits)

lemma getAllVideos_success:
  assumes "result (getAllVideos e d req) = Inr (st, ApiResponse c (Rows rows) m)"
  shows "\<exists>u re. aggregate e d (listing_pipeline u re e (rq_query req)) = Inr rows"
proof -
  have "fst (getAllVideos e d req) = Inr (st, ApiResponse c (Rows rows) m)"
    using assms by (simp add: result_def)
  then show ?thesis
    unfolding getAllVideos_def Let_def
    by (simp split: if_splits option.splits sum.splits) blast
qed

text \<open>
  C2, as stated, fails once \<open>(page - 1) * limit\<close> is not a double: line 39 computes it in
  floating point. With \<open>page = 9007199254740992\<close> and \<open>limit = 3\<close> the listing is accepted
  and the query carries \<open>$skip: 27021597764222972\<close>, one less than \<open>(page - 1) * limit\<close>.
\<close>

theorem getAllVideos_skip_rounded:
  "pageNum env0 (rq_query req_list_huge) = Fin 9007199254740992 \<and>
   limitNum env0 (rq_query req_list_huge) = Fin 3 \<and>
   result (getAllVideos env0 db1 req_list_huge) =
     Inr (200, ApiResponse 200 (Rows []) ''All videos fetched successfully'') \<and>
   trace (getAllVideos env0 db1 req_list_huge) =
     [Aggregate (listing_pipeline alice ''cat'' env0 (rq_query req_list_huge))] \<and>
   listing_pipeline alice ''cat'' env0 (rq_query req_list_huge) ! 4 =
     Skip (Fin 27021597764222972) \<and>
   Skip (Fin ((9007199254740992 - 1) * 3)) \<notin>
     set (listing_pipeline alice ''cat'' env0 (rq_query req_list_huge))"
proof -
  let ?q = "rq_query req_list_huge"
  let ?pl = "listing_pipeline alice ''cat'' env0 ?q"
  have p: "pageNum env0 ?q = Fin 9007199254740992"
    by code_simp
  have l: "limitNum env0 ?q = Fin 3"
    by code_simp
  have si: "startIndex env0 ?q = Fin 27021597764222972"
    by code_simp
  have fin: "Number_isFinite (pageNum env0 ?q)" "\<not> js_lt (pageNum env0 ?q) (Fin 1)"
    "Number_isFinite (limitNum env0 ?q)" "\<not> js_lt (limitNum env0 ?q) (Fin 1)"
    unfolding p l by simp_all
  have qs: "required_text (query ?q) = Some ''cat''"
    by code_simp
  have "isValidObjectId env0 (userId ?q)"
    by code_simp
  then have v: "falsy (userId ?q) \<or> isValidObjectId env0 (userId ?q)"
    by simp
  have u: "ObjectId env0 (userId ?q) = Inr alice"
    by code_simp
  have t: "trim ''cat'' = ''cat''"
    by code_simp
  have re: "RegExp_throws env0 (trim ''cat'') = None"
    by (simp add: env0_def)
  have len: "length (ranked env0 db1 alice ''cat'' ?q) = 3"
    by code_simp
  have agg: "aggregate env0 db1 ?pl = Inr []"
    by (simp add: run_listing_pipeline si l len)
  have run: "getAllVideos env0 db1 req_list_huge =
      (Inr (200, ApiResponse 200 (Rows []) ''All videos fetched successfully''), db1,
       [Aggregate ?pl])"
    using getAllVideos_valid [OF fin qs v u re, of db1] unfolding t agg by simp
  have st: "?pl ! 4 = Skip (Fin 27021597764222972)"
    by (simp add: listing_pipeline_def si)
  have ns: "Skip (Fin ((9007199254740992 - 1) * 3)) \<notin> set ?pl"
    by (simp add: listing_pipeline_def si)
  show ?thesis
    unfolding run using p l st ns by (simp add: result_def trace_def)
qed

text \<open>
  C2, amended: for a listing whose page and limit parse to integers \<open>p \<ge> 1\<close> and
  \<open>l \<ge> 1\<close> with \<open>(p - 1) * l\<close> below \<open>2 ^ 53\<close> (and that passes the other checks, with
  \<open>ObjectId\<close> and \<open>RegExp\<close> not throwing), the query has the stages \<open>$skip: (p - 1) * l\<close>
  and \<open>$limit: l\<close>, and the rows returned are the ranked matching records from position
  \<open>(p - 1) * l\<close> on, at most \<open>l\<close> of them.
\<close>

theorem getAllVideos_page_window:
  assumes "pageNum e (rq_query req) = Fin (of_nat p)" and "1 \<le> p"
    and "limitNum e (rq_query req) = Fin (of_nat l)" and "1 \<le> l"
    and "(p - 1) * l < 2 ^ 53"
    and "required_text (query (rq_query req)) = Some qs"
    and "falsy (userId (rq_query req)) \<or> isValidObjectId e (userId (rq_query req))"
    and "ObjectId e (userId (rq_query req)) = Inr u"
    and "RegExp_throws e (trim qs) = None"
  shows "\<exists>rows.
           getAllVideos e d req =
             (Inr (200, ApiResponse 200 (Rows rows) ''All videos fetched successfully''), d,
              [Aggregate (listing_pipeline u (trim qs) e (rq_query req))]) \<and>
           Skip (Fin (of_nat ((p - 1) * l))) \<in> set (listing_pipeline u (trim qs) e (rq_query req)) \<and>
           Limit (Fin (of_nat l)) \<in> set (listing_pipeline u (trim qs) e (rq_query req)) \<and>
           rows = map page_projection
                    (take l (drop ((p - 1) * l) (ranked e d u (trim qs) (rq_query req)))) \<and>
           length rows \<le> l"
proof -
  let ?rows = "map page_projection
      (take l (drop ((p - 1) * l) (ranked e d u (trim qs) (rq_query req))))"
  have fin: "Number_isFinite (pageNum e (rq_query req))"
    "\<not> js_lt (pageNum e (rq_query req)) (Fin 1)"
    "Number_isFinite (limitNum e (rq_query req))"
    "\<not> js_lt (limitNum e (rq_query req)) (Fin 1)"
    using assms(1-4) by simp_all
  have run: "getAllVideos e d req =
      (Inr (200, ApiResponse 200 (Rows ?rows) ''All videos fetched successfully''), d,
       [Aggregate (listing_pipeline u (trim qs) e (rq_query req))])"
    by (simp add: getAllVideos_valid [OF fin assms(6-9)]
        aggregate_listing_page [OF assms(1-5)])
  have sk: "Skip (Fin (of_nat ((p - 1) * l))) \<in> set (listing_pipeline u (trim qs) e (rq_query req))"
    unfolding startIndex_page [OF assms(1-5), symmetric] by (simp add: listing_pipeline_def)
  have li: "Limit (Fin (of_nat l)) \<in> set (listing_pipeline u (trim qs) e (rq_query req))"
    unfolding assms(3) [symmetric] by (simp add: listing_pipeline_def)
  have len: "length ?rows \<le> l"
    by simp
  show ?thesis
    by (rule exI [of _ ?rows]) (use run sk li len in blast)
qed

theorem getAllVideos_page_window_witness:
  "pageNum env0 q_page2 = Fin (of_nat 2) \<and> limitNum env0 q_page2 = Fin (of_nat 2) \<and>
   (2 - 1) * 2 < (2::nat) ^ 53 \<and>
   required_text (query q_page2) = Some ''cat'' \<and>
   isValidObjectId env0 (userId q_page2) \<and>
   ObjectId env0 (userId q_page2) = Inr alice \<and>
   map (field ''views'') (ranked env0 db1 alice ''cat'' q_page2) =
     [Some (BNum 10), Some (BNum 20), Some (BNum 30)] \<and>
   (\<exists>rows.
      result (getAllVideos env0 db1 req_list_page2) =
        Inr (200, ApiResponse 200 (Rows rows) ''All videos fetched successfully'') \<and>
      map (field ''views'') rows = [Some (BNum 30)] \<and> length rows \<le> 2)"
proof -
  have q: "rq_query req_list_page2 = q_page2"
    by (simp add: example_defs)
  have p: "pageNum env0 (rq_query req_list_page2) = Fin (of_nat 2)"
    unfolding q by code_simp
  have l: "limitNum env0 (rq_query req_list_page2) = Fin (of_nat 2)"
    unfolding q by code_simp
  have qs: "required_text (query (rq_query req_list_page2)) = Some ''cat''"
    unfolding q by code_simp
  have v: "isValidObjectId env0 (userId (rq_query req_list_page2))"
    unfolding q by code_simp
  then have v': "falsy (userId (rq_query req_list_page2)) \<or>
      isValidObjectId env0 (userId (rq_query req_list_page2))"
    by simp
  have u: "ObjectId env0 (userId (rq_query req_list_page2)) = Inr alice"
    unfolding q by code_simp
  have t: "trim ''cat'' = ''cat''"
    by code_simp
  have re: "RegExp_throws env0 (trim ''cat'') = None"
    by (simp add: env0_def)
  have rk: "map (field ''views'') (ranked env0 db1 alice ''cat'' q_page2) =
      [Some (BNum 10), Some (BNum 20), Some (BNum 30)]"
    by code_simp
  have pg: "map (field ''views'')
      (map page_projection (take 2 (drop ((2 - 1) * 2) (ranked env0 db1 alice ''cat'' q_page2)))) =
      [Some (BNum 30)]"
    by code_simp
  from getAllVideos_page_window [OF p _ l _ _ qs v' u re, of db1]
  show ?thesis
    using p l qs v u rk pg unfolding q t by (auto simp add: result_def)
qed

lemma split_path_nonempty: "split_path k \<noteq> []"
  by (induction k) (auto split: list.splits)

lemma get_field_append:
  "get_field h ks (x @ y) =
     (case field h x of None \<Rightarrow> get_field h ks y | Some v \<Rightarrow> get_path ks v)"
  by (induction x) (auto simp add: field_def)

lemma field_map_filter_included:
  "field h (List.map_filter (\<lambda>k. map_option (Pair k) (field k x)) incl) =
     (if h \<in> set incl then field h x else None)"
proof (induction incl)
  case Nil
  show ?case by (simp add: List.map_filter_simps field_def)
next
  case (Cons a incl)
  show ?case
  proof (cases "field a x")
    case None
    with Cons show ?thesis by (auto simp add: List.map_filter_simps)
  next
    case (Some v)
    with Cons show ?thesis by (auto simp add: List.map_filter_simps field_def)
  qed
qed

lemma field_map_filter_computed:
  "h \<notin> fst ` set computed \<Longrightarrow>
   field h (List.map_filter (\<lambda>np. map_option (Pair (fst np)) (path_value (snd np) x)) computed) = None"
proof (induction computed)
  case Nil
  show ?case by (simp add: List.map_filter_simps field_def)
next
  case (Cons a computed)
  then show ?case
    by (cases "path_value (snd a) x") (auto simp add: List.map_filter_simps field_def)
qed

text \<open>A field the projection keeps has the same value below it before and after.\<close>

lemma get_field_project_included:
  assumes "h \<in> set incl" and "h \<notin> fst ` set computed"
  shows "get_field h ks (project incl computed x) = get_field h ks x"
  using assms
  by (simp add: project_def get_field_append field_append field_map_filter_included
      get_field_field field_map_filter_computed split: option.splits)

text \<open>Any other field of a projected row comes from the computed part alone.\<close>

lemma get_field_project_other:
  assumes "h \<notin> set incl"
  shows "get_field h ks (project incl computed x) =
         get_field h ks
           (List.map_filter (\<lambda>np. map_option (Pair (fst np)) (path_value (snd np) x)) computed)"
  using assms by (simp add: project_def get_field_append field_map_filter_included)

lemma field_owner_join:
  assumes "field ''owner'' x = Some (BOid u)"
  shows "field ''ownerInfo'' (owner_join d x) =
     (case filter (\<lambda>f. field ''_id'' f = Some (BOid u)) (collection d ''users'') of
        [] \<Rightarrow> None
      | a # as \<Rightarrow> Some (BDoc a))"
  using assms
  by (simp add: owner_join_def add_first_def lookup_doc_def split: list.splits)

lemma joined_ownerInfo:
  assumes "x \<in> set (joined e d u re)"
  shows "field ''ownerInfo'' x =
     (case filter (\<lambda>f. field ''_id'' f = Some (BOid u)) (collection d ''users'') of
        [] \<Rightarrow> None
      | a # as \<Rightarrow> Some (BDoc a))"
  using assms by (auto simp add: joined_def matches_def field_owner_join)

lemma joined_computed_same:
  assumes "x \<in> set (joined e d u re)" and "y \<in> set (joined e d u re)"
  shows "List.map_filter (\<lambda>np. map_option (Pair (fst np)) (path_value (snd np) x))
           [(''ownerName'', ''ownerInfo.fullName''), (''ownerAvatar'', ''ownerInfo.avatar'')] =
         List.map_filter (\<lambda>np. map_option (Pair (fst np)) (path_value (snd np) y))
           [(''ownerName'', ''ownerInfo.fullName''), (''ownerAvatar'', ''ownerInfo.avatar'')]"
proof -
  have "path_value ''ownerInfo.fullName'' x = path_value ''ownerInfo.fullName'' y"
    "path_value ''ownerInfo.avatar'' x = path_value ''ownerInfo.avatar'' y"
    using joined_ownerInfo [OF assms(1)] joined_ownerInfo [OF assms(2)]
    by (simp_all add: path_value_def get_field_field)
  then show ?thesis
    by (simp add: List.map_filter_simps split: option.splits)
qed

text \<open>Projection keeps the order of the sort values of the joined rows: either every
  row keeps its value, or all projected rows have the same value.\<close>

lemma sort_value_projection:
  assumes "x \<in> set (joined e d u re)" and "y \<in> set (joined e d u re)"
    and "sort_value k x \<le> sort_value k y"
  shows "sort_value k (page_projection x) \<le> sort_value k (page_projection y)"
proof -
  obtain h ks where hk: "split_path k = h # ks"
    using split_path_nonempty [of k] by (cases "split_path k") auto
  show ?thesis
  proof (cases "h \<in> set [''_id'', ''title'', ''videoFile'', ''thumbnail'', ''views'',
      ''duration'', ''createdAt'', ''owner'']")
    case True
    then have "\<And>z. get_field h ks (page_projection z) = get_field h ks z"
      unfolding page_projection_def
      by (intro get_field_project_included) auto
    with assms(3) show ?thesis
      by (simp add: sort_value_def path_value_def hk)
  next
    case False
    have "get_field h ks (page_projection x) = get_field h ks (page_projection y)"
      unfolding page_projection_def get_field_project_other [OF False]
        joined_computed_same [OF assms(1,2)]
      by (rule refl)
    then show ?thesis
      by (simp add: sort_value_def path_value_def hk)
  qed
qed


lemma sorted_ranked:
  "if sortType q = Some ''desc''
   then sorted_wrt (\<lambda>x y. sort_value (sort_field q) y \<le> sort_value (sort_field q) x)
          (ranked e d u re q)
   else sorted_wrt (\<lambda>x y. sort_value (sort_field q) x \<le> sort_value (sort_field q) y)
          (ranked e d u re q)"
proof -
  have "sorted (map (sort_value (sort_field q))
      (sort_key (sort_value (sort_field q)) (joined e d u re)))"
    by (rule sorted_sort_key)
  then have "sorted_wrt (\<lambda>x y. sort_value (sort_field q) x \<le> sort_value (sort_field q) y)
      (sort_key (sort_value (sort_field q)) (joined e d u re))"
    by (simp add: sorted_wrt_map)
  then show ?thesis
    by (simp add: ranked_eq sorted_wrt_rev)
qed

lemma set_ranked: "set (ranked e d u re q) = set (joined e d u re)"
  by (simp add: ranked_eq)

text \<open>
  C5: in every successful listing response the values of the rows at \<open>sortBy\<close>, in the
  order of BSON values, are non-increasing when \<open>sortType\<close> is \<open>desc\<close> and non-decreasing
  for any other \<open>sortType\<close>, an omitted one included.
\<close>

theorem getAllVideos_page_sorted:
  assumes "result (getAllVideos e d req) = Inr (st, ApiResponse c (Rows rows) m)"
  shows "if sortType (rq_query req) = Some ''desc''
         then sorted_wrt (\<lambda>a b. b \<le> a) (map (sort_value (sort_field (rq_query req))) rows)
         else sorted (map (sort_value (sort_field (rq_query req))) rows)"
proof -
  let ?k = "sort_field (rq_query req)"
  obtain u re where agg: "aggregate e d (listing_pipeline u re e (rq_query req)) = Inr rows"
    using getAllVideos_success [OF assms] by blast
  obtain n k where rows:
    "rows = map page_projection (take k (drop n (ranked e d u re (rq_query req))))"
    using aggregate_listing_rows [OF agg] by blast
  let ?page = "take k (drop n (ranked e d u re (rq_query req)))"
  have sub: "set ?page \<subseteq> set (joined e d u re)"
    using set_take_subset set_drop_subset set_ranked by fast
  show ?thesis
  proof (cases "sortType (rq_query req) = Some ''desc''")
    case True
    then have "sorted_wrt (\<lambda>x y. sort_value ?k y \<le> sort_value ?k x)
        (ranked e d u re (rq_query req))"
      using sorted_ranked [of "rq_query req" e d u re] by simp
    then have "sorted_wrt (\<lambda>x y. sort_value ?k y \<le> sort_value ?k x) ?page"
      by simp
    then have "sorted_wrt (\<lambda>x y. sort_value ?k (page_projection y)
        \<le> sort_value ?k (page_projection x)) ?page"
      using sub by (elim sorted_wrt_mono_rel [rotated]) (auto intro: sort_value_projection)
    with True show ?thesis
      by (simp add: rows sorted_wrt_map)
  next
    case False
    then have "sorted_wrt (\<lambda>x y. sort_value ?k x \<le> sort_value ?k y)
        (ranked e d u re (rq_query req))"
      using sorted_ranked [of "rq_query req" e d u re] by simp
    then have "sorted_wrt (\<lambda>x y. sort_value ?k x \<le> sort_value ?k y) ?page"
      by simp
    then have "sorted_wrt (\<lambda>x y. sort_value ?k (page_projection x)
        \<le> sort_value ?k (page_projection y)) ?page"
      using sub by (elim sorted_wrt_mono_rel [rotated]) (auto intro: sort_value_projection)
    with False show ?thesis
      by (simp add: rows sorted_wrt_map)
  qed
qed

theorem getAllVideos_page_sorted_witness:
  "sortType (rq_query req_list_desc) = Some ''desc'' \<and>
   sort_field (rq_query req_list_desc) = ''views'' \<and>
   (\<exists>rows.
      result (getAllVideos env0 db1 req_list_desc) =
        Inr (200, ApiResponse 200 (Rows rows) ''All videos fetched successfully'') \<and>
      map (field ''views'') rows = [Some (BNum 30), Some (BNum 20), Some (BNum 10)] \<and>
      sorted_wrt (\<lambda>a b. b \<le> a) (map (sort_value ''views'') rows))"
proof -
  let ?rows = "map page_projection (take 3 (ranked env0 db1 alice ''cat'' (rq_query req_list_desc)))"
  have st: "sortType (rq_query req_list_desc) = Some ''desc''"
    by (simp add: example_defs)
  have sf: "sort_field (rq_query req_list_desc) = ''views''"
    by (simp add: sort_field_def example_defs)
  have r: "result (getAllVideos env0 db1 req_list_desc) =
      Inr (200, ApiResponse 200 (Rows ?rows) ''All videos fetched successfully'')"
    by code_simp
  have v: "map (field ''views'') ?rows = [Some (BNum 30), Some (BNum 20), Some (BNum 10)]"
    by code_simp
  from getAllVideos_page_sorted [OF r]
  have s: "sorted_wrt (\<lambda>a b. b \<le> a) (map (sort_value ''views'') ?rows)"
    by (simp only: st sf if_True)
  show ?thesis
    by (intro conjI exI [of _ ?rows]) (rule st sf r v s)+
qed

section \<open>The owner filter\<close>

lemma field_video_doc_owner: "field ''owner'' (video_doc v) = map_option BOid (owner v)"
  by (simp add: video_doc_def field_def split: option.splits)

lemma field_video_doc_isPublished:
  "field ''isPublished'' (video_doc v) = Some (BBool (isPublished v))"
  by (simp add: video_doc_def field_def split: option.splits)

lemma field_video_doc_title: "field ''title'' (video_doc v) = Some (BStr (title v))"
  by (simp add: video_doc_def field_def)

text \<open>What the match stage tests, in terms of the stored video.\<close>

lemma matches_video_doc:
  "matches e u p re (video_doc v) \<longleftrightarrow>
     owner v = Some u \<and> isPublished v = p \<and> regex_test e re (title v)"
  by (cases "owner v")
    (auto simp add: matches_def field_video_doc_owner field_video_doc_isPublished
      field_video_doc_title)

lemma field_remove_field_other: "k \<noteq> k' \<Longrightarrow> field k (remove_field k' x) = field k x"
  by (induction x) (auto simp add: field_def remove_field_def)

lemma field_set_field_other: "k \<noteq> k' \<Longrightarrow> field k (set_field k' v x) = field k x"
  by (simp add: set_field_def field_append field_remove_field_other split: option.splits)
    (simp add: field_def)

lemma field_owner_join_other:
  "k \<noteq> ''ownerInfo'' \<Longrightarrow> field k (owner_join d x) = field k x"
  by (simp add: owner_join_def add_first_def lookup_doc_def field_set_field_other
      field_remove_field_other split: option.splits bval.splits list.splits)

lemma field_project_included:
  assumes "h \<in> set incl" and "h \<notin> fst ` set computed"
  shows "field h (project incl computed x) = field h x"
proof -
  have a: "field h (List.map_filter (\<lambda>k. map_option (Pair k) (field k x)) incl) = field h x"
    using assms(1) by (simp add: field_map_filter_included)
  have b: "field h (List.map_filter
      (\<lambda>np. map_option (Pair (fst np)) (path_value (snd np) x)) computed) = None"
    using assms(2) by (rule field_map_filter_computed)
  show ?thesis
    unfolding project_def field_append a b by (cases "field h x") simp_all
qed

lemma field_page_projection_owner: "field ''owner'' (page_projection x) = field ''owner'' x"
  unfolding page_projection_def by (rule field_project_included) simp_all

text \<open>Every row of the listing is the projection of a stored video that the match stage
  accepts.\<close>

lemma listing_rows_from_matching:
  assumes "aggregate e d (listing_pipeline u re e q) = Inr rows" and "row \<in> set rows"
  shows "\<exists>v \<in> set (videos d). owner v = Some u \<and> isPublished v \<and> regex_test e re (title v) \<and>
           row = page_projection (owner_join d (video_doc v))"
proof -
  obtain n k where "rows = map page_projection (take k (drop n (ranked e d u re q)))"
    using aggregate_listing_rows [OF assms(1)] by blast
  with assms(2) obtain x where x: "x \<in> set (take k (drop n (ranked e d u re q)))"
    and row: "row = page_projection x"
    by auto
  have "x \<in> set (joined e d u re)"
    using x set_take_subset set_drop_subset set_ranked by fast
  then obtain v where "v \<in> set (videos d)" and "matches e u True re (video_doc v)"
    and "x = owner_join d (video_doc v)"
    by (auto simp add: joined_def)
  with row show ?thesis
    by (auto simp add: matches_video_doc)
qed

lemma getAllVideos_query:
  assumes "Aggregate pl \<in> set (trace (getAllVideos e d req))"
  shows "\<exists>u re. ObjectId e (userId (rq_query req)) = Inr u \<and>
           pl = listing_pipeline u re e (rq_query req) \<and>
           (\<forall>st c rows m.
              result (getAllVideos e d req) = Inr (st, ApiResponse c (Rows rows) m) \<longrightarrow>
              aggregate e d pl = Inr rows)"
  using assms unfolding getAllVideos_def Let_def trace_def result_def
  by (auto split: if_splits option.splits sum.splits)

text \<open>
  C4: every query the listing issues starts with a match stage on
  \<open>owner = ObjectId(userId)\<close> and \<open>isPublished = true\<close>, whether or not the request
  supplies \<open>userId\<close>, and the stage is applied: every row of a successful response is the
  projection of a stored, published video whose owner is \<open>ObjectId(userId)\<close>, and carries
  that owner. The run on \<open>req_list_nouser\<close> is one without \<open>userId\<close>: none of the four
  videos whose title matches is returned.
\<close>

theorem getAllVideos_owner_filter_unconditional:
  assumes "Aggregate pl \<in> set (trace (getAllVideos e d req))"
  shows "\<exists>u re. ObjectId e (userId (rq_query req)) = Inr u \<and>
           pl = listing_pipeline u re e (rq_query req) \<and> hd pl = Match u True re \<and>
           (\<forall>st c rows m.
              result (getAllVideos e d req) = Inr (st, ApiResponse c (Rows rows) m) \<longrightarrow>
              list_all
                (\<lambda>row. field ''owner'' row = Some (BOid u) \<and>
                   list_ex
                     (\<lambda>v. owner v = Some u \<and> isPublished v \<and>
                        row = page_projection (owner_join d (video_doc v)))
                     (videos d))
                rows)"
proof -
  obtain u re where u: "ObjectId e (userId (rq_query req)) = Inr u"
    and pl: "pl = listing_pipeline u re e (rq_query req)"
    and agg: "\<And>st c rows m.
      result (getAllVideos e d req) = Inr (st, ApiResponse c (Rows rows) m) \<Longrightarrow>
      aggregate e d pl = Inr rows"
    using getAllVideos_query [OF assms] by blast
  have hd: "hd pl = Match u True re"
    by (simp add: pl listing_pipeline_def)
  have rows: "list_all
      (\<lambda>row. field ''owner'' row = Some (BOid u) \<and>
         list_ex
           (\<lambda>v. owner v = Some u \<and> isPublished v \<and>
              row = page_projection (owner_join d (video_doc v)))
           (videos d))
      rows"
    if "result (getAllVideos e d req) = Inr (st, ApiResponse c (Rows rows) m)"
    for st c rows m
  proof -
    have a: "aggregate e d (listing_pipeline u re e (rq_query req)) = Inr rows"
      using agg [OF that] by (simp add: pl)
    show ?thesis
      unfolding list_all_iff
    proof
      fix row
      assume "row \<in> set rows"
      then obtain v where v: "v \<in> set (videos d)" "owner v = Some u" "isPublished v"
        "row = page_projection (owner_join d (video_doc v))"
        using listing_rows_from_matching [OF a] by blast
      have "field ''owner'' row = Some (BOid u)"
        by (simp add: v(2,4) field_page_projection_owner field_owner_join_other
            field_video_doc_owner)
      moreover have "list_ex
          (\<lambda>v. owner v = Some u \<and> isPublished v \<and>
             row = page_projection (owner_join d (video_doc v)))
          (videos d)"
        unfolding list_ex_iff using v by blast
      ultimately show "field ''owner'' row = Some (BOid u) \<and>
          list_ex
            (\<lambda>v. owner v = Some u \<and> isPublished v \<and>
               row = page_projection (owner_join d (video_doc v)))
            (videos d)"
        by simp
    qed
  qed
  show ?thesis
    using u pl hd rows by blast
qed

theorem getAllVideos_owner_filter_unconditional_witness:
  "userId (rq_query req_list_nouser) = None \<and>
   ObjectId env0 None = Inr ''000000000000000000000000'' \<and>
   trace (getAllVideos env0 db1 req_list_nouser) =
     [Aggregate (listing_pipeline ''000000000000000000000000'' ''cat'' env0
        (rq_query req_list_nouser))] \<and>
   hd (listing_pipeline ''000000000000000000000000'' ''cat'' env0 (rq_query req_list_nouser)) =
     Match ''000000000000000000000000'' True ''cat'' \<and>
   length (filter (\<lambda>v. regex_test env0 ''cat'' (title v)) (videos db1)) = 4 \<and>
   result (getAllVideos env0 db1 req_list_nouser) =
     Inr (200, ApiResponse 200 (Rows []) ''All videos fetched successfully'') \<and>
   (\<exists>rows.
      result (getAllVideos env0 db1 req_list_desc) =
        Inr (200, ApiResponse 200 (Rows rows) ''All videos fetched successfully'') \<and>
      length rows = 3 \<and>
      list_all (\<lambda>row. field ''owner'' row = Some (BOid alice)) rows)"
proof -
  let ?pl = "listing_pipeline ''000000000000000000000000'' ''cat'' env0 (rq_query req_list_nouser)"
  let ?pd = "listing_pipeline alice ''cat'' env0 (rq_query req_list_desc)"
  let ?rows = "map page_projection (take 3 (ranked env0 db1 alice ''cat'' (rq_query req_list_desc)))"
  have n: "userId (rq_query req_list_nouser) = None"
    by (simp add: example_defs)
  have o: "ObjectId env0 None = Inr ''000000000000000000000000''"
    by (simp add: env0_def)
  have t: "trace (getAllVideos env0 db1 req_list_nouser) = [Aggregate ?pl]"
    by code_simp
  have r: "result (getAllVideos env0 db1 req_list_nouser) =
      Inr (200, ApiResponse 200 (Rows []) ''All videos fetched successfully'')"
    by code_simp
  have c: "length (filter (\<lambda>v. regex_test env0 ''cat'' (title v)) (videos db1)) = 4"
    by code_simp
  have h: "hd ?pl = Match ''000000000000000000000000'' True ''cat''"
    by (simp add: listing_pipeline_def)
  have td: "trace (getAllVideos env0 db1 req_list_desc) = [Aggregate ?pd]"
    by code_simp
  have rd: "result (getAllVideos env0 db1 req_list_desc) =
      Inr (200, ApiResponse 200 (Rows ?rows) ''All videos fetched successfully'')"
    by code_simp
  have ud: "ObjectId env0 (userId (rq_query req_list_desc)) = Inr alice"
    by code_simp
  have len: "length ?rows = 3"
    by code_simp
  have md: "Aggregate ?pd \<in> set (trace (getAllVideos env0 db1 req_list_desc))"
    unfolding td by simp
  have "list_all (\<lambda>row. field ''owner'' row = Some (BOid alice)) ?rows"
    using getAllVideos_owner_filter_unconditional [OF md] rd
    by (auto simp add: ud list_all_iff)
  with n o t h c r rd len show ?thesis
    by (intro conjI exI [of _ ?rows]) assumption+
qed

end
